theory Spec2Isabelle
  imports Complex_Main
begin

section \<open>Double-precision arithmetic\<close>

text \<open>
  Python's \<open>float\<close> is an IEEE 754 binary64 number.  A finite double is modelled by the
  real number it denotes; every arithmetic operation of the source is the exact
  operation followed by \<open>fl\<close>, rounding to the nearest number with a 53-bit significand,
  ties to the even significand.  Comparisons are exact.  The model covers finite values
  in the normal range (no overflow to infinity, no subnormals, no NaN, no signed zero):
  azimuths, radii in metres and degrees of longitude and latitude all lie well inside it.
\<close>

definition pow2 :: "int \<Rightarrow> real" where
  "pow2 e = (if 0 \<le> e then 2 ^ nat e else 1 / 2 ^ nat (- e))"

definition round_half_even :: "real \<Rightarrow> int" where
  "round_half_even q =
     (let n = \<lfloor>q\<rfloor>; r = q - of_int n
      in if r < 1 / 2 then n else if 1 / 2 < r then n + 1 else if even n then n else n + 1)"

text \<open>\<open>ilog2 q\<close> is the binary exponent of a positive \<open>q\<close>:
  \<open>2 ^ ilog2 q \<le> q < 2 ^ (ilog2 q + 1)\<close>, found by halving or doubling \<open>q\<close> into \<open>[1, 2)\<close>.\<close>

function ilog2 :: "real \<Rightarrow> int" where
  "ilog2 q = (if q \<le> 0 then 0
              else if q < 1 then ilog2 (q * 2) - 1
              else if 2 \<le> q then ilog2 (q / 2) + 1
              else 0)"
  by pat_completeness auto
termination
proof (relation "measure (\<lambda>q. if q < 1 then nat \<lceil>1 / q\<rceil> else nat \<lfloor>q\<rfloor>)", goal_cases)
  case 1
  then show ?case by simp
next
  case (2 q)
  then have q: "0 < q" "q < 1" by auto
  show ?case
  proof (cases "q * 2 < 1")
    case True
    define r where "r = 1 / q"
    have "2 < r" using True q by (simp add: r_def field_simps)
    moreover have "of_int \<lceil>r / 2\<rceil> < r / 2 + 1" by linarith
    moreover have "r \<le> of_int \<lceil>r\<rceil>" by linarith
    ultimately have "(of_int \<lceil>r / 2\<rceil> :: real) < of_int \<lceil>r\<rceil>" by linarith
    then have "\<lceil>(1 / q) / 2\<rceil> < \<lceil>1 / q\<rceil>" by (simp add: r_def)
    moreover have "1 / (q * 2) = (1 / q) / 2" by simp
    ultimately have "\<lceil>1 / (q * 2)\<rceil> < \<lceil>1 / q\<rceil>" by metis
    moreover have "0 < \<lceil>1 / q\<rceil>" using q by simp
    ultimately have "nat \<lceil>1 / (q * 2)\<rceil> < nat \<lceil>1 / q\<rceil>" by linarith
    then show ?thesis using q True by (simp del: ceiling_divide_eq_div_numeral)
  next
    case False
    then have "1 \<le> q * 2" by simp
    have "q * 2 < 2" using q by simp
    then have "\<lfloor>q * 2\<rfloor> = 1" using \<open>1 \<le> q * 2\<close> by linarith
    moreover have "1 < 1 / q" using q by simp
    then have "1 < \<lceil>1 / q\<rceil>" by linarith
    ultimately show ?thesis using q False by simp
  qed
next
  case (3 q)
  then have "2 \<le> q" by simp
  then have "\<lfloor>q / 2\<rfloor> < \<lfloor>q\<rfloor>" by linarith
  then show ?case using 3 by simp
qed

declare ilog2.simps [simp del]

definition fl :: "real \<Rightarrow> real" where
  "fl q = (if q = 0 then 0
           else let e = ilog2 \<bar>q\<bar> - 52 in of_int (round_half_even (q / pow2 e)) * pow2 e)"


section \<open>Data model\<close>

text \<open>Exceptions are values: the ones the source can raise itself, and \<open>Raised\<close> for
  whatever a collaborator (solver, transform, expression engine) throws.\<close>

datatype exn = ZeroDivisionError | IndexError | TypeError | ValueError | AttributeError
  | Raised string

text \<open>\<open>QgsPointXY(x, y)\<close>; the accessors \<open>x()\<close> and \<open>y()\<close> are \<open>pt_x\<close> and \<open>pt_y\<close>.\<close>

record QgsPointXY =
  pt_x :: real
  pt_y :: real

text \<open>The dictionary \<open>geod.Direct\<close> returns, with the two keys the source reads.\<close>

record geod_result =
  lat2 :: real
  lon2 :: real

text \<open>\<open>geod.Direct(lat, lon, azimuth, distance, mask)\<close> of geographiclib, and the
  \<open>transform\<close> method of a \<open>QgsCoordinateTransform\<close>: collaborators that may raise.\<close>

type_synonym solver = "real \<Rightarrow> real \<Rightarrow> real \<Rightarrow> real \<Rightarrow> exn + geod_result"

type_synonym transform = "QgsPointXY \<Rightarrow> exn + QgsPointXY"

type_synonym crs = string

text \<open>Modelled from the spec: \<open>epsg4326\<close> of the settings module, which is not part of the
  source file; the spec calls it the geographic reference frame (EPSG:4326).\<close>

definition epsg4326 :: crs where
  "epsg4326 = ''EPSG:4326''"

datatype QgsGeometry =
    NullGeometry
  | PointGeometry QgsPointXY
  | PolygonXY "QgsPointXY list list"
  | MultiPolylineXY "QgsPointXY list list"

datatype attr = AttrDouble real | AttrOther string

record QgsFeature =
  geometry :: QgsGeometry
  attributes :: "attr list"

text \<open>The processing context; its expression context holds the feature being processed.\<close>

record QgsProcessingContext =
  expressionContext :: QgsFeature

text \<open>A dynamic property: \<open>valueAsDouble(expressionContext, default)\<close> returns the value and
  the success flag, or raises.\<close>

type_synonym property = "QgsFeature \<Rightarrow> real \<Rightarrow> exn + real \<times> bool"

datatype feedback_msg = reportError string | pushInfo string

text \<open>The attributes of the algorithm object (\<open>self\<close>).\<close>

record CreateDonutAlgorithm =
  shape_type :: int
  export_geom :: bool
  outer_radius :: real
  outer_radius_dyn :: bool
  outer_radius_property :: "property option"
  inner_radius :: real
  inner_radius_dyn :: bool
  inner_radius_property :: "property option"
  measure_factor :: real
  inner_radius_converted :: real
  outer_radius_converted :: real
  pt_spacing :: real
  total_features :: int
  geom_to_4326 :: "transform option"
  to_sink_crs :: "transform option"
  num_bad :: nat

text \<open>The parameter dictionary as \<open>prepareAlgorithm\<close> reads it: what \<open>parameterAsInt\<close>,
  \<open>parameterAsDouble\<close> and \<open>parameterAsBool\<close> return, the property of a radius when
  \<open>isDynamic\<close> holds for it, and the source layer's CRS and feature count.\<close>

record parameters =
  ShapeType :: int
  OuterRadius :: real
  OuterRadius_property :: "property option"
  InnerRadius :: real
  InnerRadius_property :: "property option"
  UnitsOfMeasure :: int
  DrawingSegments :: int
  ExportInputGeometry :: bool
  INPUT_sourceCrs :: crs
  INPUT_featureCount :: int

text \<open>The collaborators outside the source file: the geodesic solver, the unit table
  \<open>conversionToMeters\<close> and the constructor of coordinate transforms.\<close>

record env =
  geod_Direct :: solver
  conversionToMeters :: "int \<Rightarrow> real"
  QgsCoordinateTransform :: "crs \<Rightarrow> crs \<Rightarrow> transform"

definition mk_point :: "geod_result \<Rightarrow> QgsPointXY" where
  "mk_point g = \<lparr>pt_x = lon2 g, pt_y = lat2 g\<rparr>"


section \<open>Antimeridian helpers\<close>

text \<open>Modelled from the spec: \<open>hasIdlCrossing\<close> of the utils module, which is not part of the
  source file.  A ring crosses the antimeridian when the longitudes of two consecutive
  points differ by more than 180 degrees.\<close>

fun hasIdlCrossing :: "QgsPointXY list \<Rightarrow> bool" where
  "hasIdlCrossing (p # q # pts) =
     (180 < \<bar>fl (pt_x q - pt_x p)\<bar> \<or> hasIdlCrossing (q # pts))"
| "hasIdlCrossing pts = False"

text \<open>Modelled from the spec: \<open>makeIdlCrossingsPositive\<close> of the utils module, which is not
  part of the source file.  Normalising to the positive side shifts every longitude
  below 0 by +360; the points are changed in place, so the caller's list holds the
  result.  The source only ever passes \<open>True\<close>; the spec says nothing about \<open>False\<close>,
  which leaves the ring as it is here.\<close>

definition shift_positive :: "QgsPointXY \<Rightarrow> QgsPointXY" where
  "shift_positive p = (if pt_x p < 0 then p\<lparr>pt_x := fl (pt_x p + 360)\<rparr> else p)"

definition makeIdlCrossingsPositive :: "QgsPointXY list \<Rightarrow> bool \<Rightarrow> QgsPointXY list" where
  "makeIdlCrossingsPositive pts positive = (if positive then map shift_positive pts else pts)"


section \<open>\<open>prepareAlgorithm\<close>\<close>

text \<open>\<open>self.pt_spacing = 360.0 / segments\<close>; Python raises on a zero divisor.\<close>

definition pt_spacing_of :: "int \<Rightarrow> exn + real" where
  "pt_spacing_of segments =
     (if segments = 0 then Inl ZeroDivisionError else Inr (fl (360 / of_int segments)))"

text \<open>The result is the returned flag, the updated object and the feedback written so
  far; \<open>Inl\<close> is an exception that leaves the method.\<close>

definition prepareAlgorithm ::
  "env \<Rightarrow> CreateDonutAlgorithm \<Rightarrow> parameters \<Rightarrow> feedback_msg list
     \<Rightarrow> exn + bool \<times> CreateDonutAlgorithm \<times> feedback_msg list" where
  "prepareAlgorithm ev self prm feedback =
     (let self = self\<lparr>shape_type := ShapeType prm, outer_radius := OuterRadius prm\<rparr>
      in if outer_radius self \<le> 0
         then Inr (False, self,
                   feedback @ [reportError ''Outer radius parameter must be greater than 0''])
         else
           let self = self\<lparr>outer_radius_dyn := (OuterRadius_property prm \<noteq> None)\<rparr>;
               self = (if outer_radius_dyn self
                       then self\<lparr>outer_radius_property := OuterRadius_property prm\<rparr>
                       else self);
               self = self\<lparr>inner_radius := InnerRadius prm,
                            inner_radius_dyn := (InnerRadius_property prm \<noteq> None)\<rparr>;
               self = (if inner_radius_dyn self
                       then self\<lparr>inner_radius_property := InnerRadius_property prm\<rparr>
                       else self);
               self = self\<lparr>export_geom := ExportInputGeometry prm,
                            measure_factor := conversionToMeters ev (UnitsOfMeasure prm)\<rparr>;
               self = self\<lparr>inner_radius_converted := fl (inner_radius self * measure_factor self),
                            outer_radius_converted := fl (outer_radius self * measure_factor self)\<rparr>
           in case pt_spacing_of (DrawingSegments prm) of
                Inl e \<Rightarrow> Inl e
              | Inr spacing \<Rightarrow>
                  let self = self\<lparr>pt_spacing := spacing,
                               total_features := INPUT_featureCount prm\<rparr>;
                      self = (if INPUT_sourceCrs prm \<noteq> epsg4326
                              then self\<lparr>geom_to_4326 :=
                                          Some (QgsCoordinateTransform ev (INPUT_sourceCrs prm) epsg4326),
                                        to_sink_crs :=
                                          Some (QgsCoordinateTransform ev epsg4326 (INPUT_sourceCrs prm))\<rparr>
                              else self\<lparr>geom_to_4326 := None, to_sink_crs := None\<rparr>)
                  in Inr (True, self\<lparr>num_bad := 0\<rparr>, feedback))"

text \<open>The object as \<open>initParameters\<close> leaves it; the attributes it does not assign hold
  placeholders until \<open>prepareAlgorithm\<close> assigns them.\<close>

definition initParameters :: CreateDonutAlgorithm where
  "initParameters =
     \<lparr>shape_type = 0, export_geom = False, outer_radius = 0, outer_radius_dyn = False,
      outer_radius_property = None, inner_radius = 0, inner_radius_dyn = False,
      inner_radius_property = None, measure_factor = 0, inner_radius_converted = 0,
      outer_radius_converted = 0, pt_spacing = 0, total_features = 0, geom_to_4326 = None,
      to_sink_crs = None, num_bad = 0\<rparr>"


section \<open>\<open>processFeature\<close>\<close>

subsection \<open>Centre point\<close>

text \<open>\<open>feature.geometry().asPoint()\<close> raises for a null geometry and for one that is not a
  single point.\<close>

fun asPoint :: "QgsGeometry \<Rightarrow> exn + QgsPointXY" where
  "asPoint (PointGeometry p) = Inr p"
| "asPoint NullGeometry = Inl ValueError"
| "asPoint g = Inl TypeError"

text \<open>\<open>if self.geom_to_4326: pt = self.geom_to_4326.transform(pt.x(), pt.y())\<close>\<close>

definition to_4326 :: "CreateDonutAlgorithm \<Rightarrow> QgsPointXY \<Rightarrow> exn + QgsPointXY" where
  "to_4326 self pt = (case geom_to_4326 self of None \<Rightarrow> Inr pt | Some t \<Rightarrow> t pt)"

subsection \<open>Radii\<close>

text \<open>The two radius blocks.  \<open>Inr None\<close> is the path \<open>self.num_bad += 1; return []\<close>,
  \<open>Inl\<close> an exception, \<open>Inr (Some r)\<close> the radius in metres.  Reading a property
  attribute that \<open>prepareAlgorithm\<close> did not assign raises \<open>AttributeError\<close>.\<close>

definition resolve_inner :: "CreateDonutAlgorithm \<Rightarrow> QgsProcessingContext \<Rightarrow> exn + real option" where
  "resolve_inner self ctx =
     (if inner_radius_dyn self then
        (case inner_radius_property self of
           None \<Rightarrow> Inl AttributeError
         | Some prop \<Rightarrow>
             (case prop (expressionContext ctx) (inner_radius self) of
                Inl ex \<Rightarrow> Inl ex
              | Inr (inner_rad, e) \<Rightarrow>
                  if \<not> e then Inr None else Inr (Some (fl (inner_rad * measure_factor self)))))
      else Inr (Some (inner_radius_converted self)))"

definition resolve_outer :: "CreateDonutAlgorithm \<Rightarrow> QgsProcessingContext \<Rightarrow> exn + real option" where
  "resolve_outer self ctx =
     (if outer_radius_dyn self then
        (case outer_radius_property self of
           None \<Rightarrow> Inl AttributeError
         | Some prop \<Rightarrow>
             (case prop (expressionContext ctx) (outer_radius self) of
                Inl ex \<Rightarrow> Inl ex
              | Inr (v, e) \<Rightarrow>
                  (let outer_rad = fl (v * measure_factor self)
                   in if \<not> e \<or> outer_rad \<le> 0 then Inr None else Inr (Some outer_rad))))
      else Inr (Some (outer_radius_converted self)))"

subsection \<open>Ring generation\<close>

text \<open>
  \<^verbatim>\<open>
  angle = 0
  while angle < 360:
      if inner_rad != 0:
          g = geod.Direct(lat, lon, angle, inner_rad, ...)
          pts_in.append(QgsPointXY(g['lon2'], g['lat2']))
      g = geod.Direct(lat, lon, angle, outer_rad, ...)
      pts_out.append(QgsPointXY(g['lon2'], g['lat2']))
      angle += self.pt_spacing
  \<close>
  The loop has no bound of its own, so it is a partial function: \<open>None\<close> is a loop that
  never ends, \<open>Some (Inl e)\<close> an exception of the solver, \<open>Some (Inr (pts_in, pts_out))\<close>
  the two lists when the loop is left.
\<close>

partial_function (option) ring_loop ::
  "solver \<Rightarrow> real \<Rightarrow> real \<Rightarrow> real \<Rightarrow> real \<Rightarrow> real \<Rightarrow> real \<Rightarrow> QgsPointXY list \<Rightarrow> QgsPointXY list
     \<Rightarrow> (exn + QgsPointXY list \<times> QgsPointXY list) option" where
  "ring_loop Direct lat lon inner_rad outer_rad spacing angle pts_in pts_out =
     (if angle < 360 then
        (case (if inner_rad \<noteq> 0
               then (case Direct lat lon angle inner_rad of
                       Inl e \<Rightarrow> Inl e
                     | Inr g \<Rightarrow> Inr (pts_in @ [mk_point g]))
               else Inr pts_in) of
           Inl e \<Rightarrow> Some (Inl e)
         | Inr pts_in' \<Rightarrow>
             (case Direct lat lon angle outer_rad of
                Inl e \<Rightarrow> Some (Inl e)
              | Inr g \<Rightarrow>
                  ring_loop Direct lat lon inner_rad outer_rad spacing (fl (angle + spacing))
                    pts_in' (pts_out @ [mk_point g])))
      else Some (Inr (pts_in, pts_out)))"

declare ring_loop.simps [code]

text \<open>\<open>pts.append(pts[0])\<close>: \<open>IndexError\<close> on an empty list.\<close>

definition close_ring :: "QgsPointXY list \<Rightarrow> exn + QgsPointXY list" where
  "close_ring pts = (case pts of [] \<Rightarrow> Inl IndexError | p # _ \<Rightarrow> Inr (pts @ [p]))"

text \<open>The loop from \<open>angle = 0\<close> with empty lists, then the two closing appends.\<close>

definition generate_rings ::
  "solver \<Rightarrow> real \<Rightarrow> real \<Rightarrow> real \<Rightarrow> real \<Rightarrow> real
     \<Rightarrow> (exn + QgsPointXY list \<times> QgsPointXY list) option" where
  "generate_rings Direct lat lon inner_rad outer_rad spacing =
     (case ring_loop Direct lat lon inner_rad outer_rad spacing 0 [] [] of
        None \<Rightarrow> None
      | Some (Inl e) \<Rightarrow> Some (Inl e)
      | Some (Inr (pts_in, pts_out)) \<Rightarrow>
          Some (case (if inner_rad \<noteq> 0 then close_ring pts_in else Inr pts_in) of
                  Inl e \<Rightarrow> Inl e
                | Inr pts_in' \<Rightarrow>
                    (case close_ring pts_out of
                       Inl e \<Rightarrow> Inl e
                     | Inr pts_out' \<Rightarrow> Inr (pts_in', pts_out'))))"

subsection \<open>Antimeridian, transformation back, geometry, attributes\<close>

text \<open>
  \<^verbatim>\<open>
  crosses_idl = hasIdlCrossing(pts_out)
  if crosses_idl:
      if inner_rad != 0:
          makeIdlCrossingsPositive(pts_in, True)
      makeIdlCrossingsPositive(pts_out, True)
  \<close>
\<close>

definition normalize_rings ::
  "real \<Rightarrow> QgsPointXY list \<times> QgsPointXY list \<Rightarrow> QgsPointXY list \<times> QgsPointXY list" where
  "normalize_rings inner_rad rings =
     (case rings of (pts_in, pts_out) \<Rightarrow>
        if hasIdlCrossing pts_out
        then ((if inner_rad \<noteq> 0 then makeIdlCrossingsPositive pts_in True else pts_in),
              makeIdlCrossingsPositive pts_out True)
        else (pts_in, pts_out))"

text \<open>\<open>for x, pt_out in enumerate(pts): pts[x] = self.to_sink_crs.transform(pt_out)\<close>: the
  first point the transform rejects raises.\<close>

fun transform_all :: "transform \<Rightarrow> QgsPointXY list \<Rightarrow> exn + QgsPointXY list" where
  "transform_all t [] = Inr []"
| "transform_all t (p # pts) =
     (case t p of
        Inl e \<Rightarrow> Inl e
      | Inr p' \<Rightarrow> (case transform_all t pts of Inl e \<Rightarrow> Inl e | Inr pts' \<Rightarrow> Inr (p' # pts')))"

definition transform_rings ::
  "CreateDonutAlgorithm \<Rightarrow> real \<Rightarrow> QgsPointXY list \<times> QgsPointXY list
     \<Rightarrow> exn + QgsPointXY list \<times> QgsPointXY list" where
  "transform_rings self inner_rad rings =
     (case rings of (pts_in, pts_out) \<Rightarrow>
        (case to_sink_crs self of
           None \<Rightarrow> Inr (pts_in, pts_out)
         | Some t \<Rightarrow>
             (case (if inner_rad \<noteq> 0 then transform_all t pts_in else Inr pts_in) of
                Inl e \<Rightarrow> Inl e
              | Inr pts_in' \<Rightarrow>
                  (case transform_all t pts_out of
                     Inl e \<Rightarrow> Inl e
                   | Inr pts_out' \<Rightarrow> Inr (pts_in', pts_out')))))"

definition build_geometry :: "int \<Rightarrow> real \<Rightarrow> QgsPointXY list \<Rightarrow> QgsPointXY list \<Rightarrow> QgsGeometry" where
  "build_geometry shape inner_rad pts_in pts_out =
     (if shape = 0
      then (if inner_rad = 0 then PolygonXY [pts_out] else PolygonXY [pts_out, pts_in])
      else (if inner_rad = 0 then MultiPolylineXY [pts_out] else MultiPolylineXY [pts_out, pts_in]))"

definition export_attrs :: "CreateDonutAlgorithm \<Rightarrow> real \<Rightarrow> real \<Rightarrow> QgsFeature \<Rightarrow> QgsFeature" where
  "export_attrs self pt_orig_x pt_orig_y feature =
     (if export_geom self
      then feature\<lparr>attributes := attributes feature @ [AttrDouble pt_orig_x, AttrDouble pt_orig_y]\<rparr>
      else feature)"

subsection \<open>The method\<close>

text \<open>What the body of the \<open>try\<close> block does: it reaches \<open>return [feature]\<close>, takes one of
  the two \<open>return []\<close> of the radius blocks, or raises.\<close>

datatype outcome = Emitted QgsFeature | Skipped | Failed exn

definition try_body ::
  "env \<Rightarrow> CreateDonutAlgorithm \<Rightarrow> QgsFeature \<Rightarrow> QgsProcessingContext \<Rightarrow> outcome option" where
  "try_body ev self feature ctx =
     (case asPoint (geometry feature) of
        Inl e \<Rightarrow> Some (Failed e)
      | Inr pt0 \<Rightarrow>
          (case to_4326 self pt0 of
             Inl e \<Rightarrow> Some (Failed e)
           | Inr pt \<Rightarrow>
               (case resolve_inner self ctx of
                  Inl e \<Rightarrow> Some (Failed e)
                | Inr None \<Rightarrow> Some Skipped
                | Inr (Some inner_rad) \<Rightarrow>
                    (case resolve_outer self ctx of
                       Inl e \<Rightarrow> Some (Failed e)
                     | Inr None \<Rightarrow> Some Skipped
                     | Inr (Some outer_rad) \<Rightarrow>
                         (case generate_rings (geod_Direct ev) (pt_y pt) (pt_x pt)
                                 inner_rad outer_rad (pt_spacing self) of
                            None \<Rightarrow> None
                          | Some (Inl e) \<Rightarrow> Some (Failed e)
                          | Some (Inr rings) \<Rightarrow>
                              (case transform_rings self inner_rad
                                      (normalize_rings inner_rad rings) of
                                 Inl e \<Rightarrow> Some (Failed e)
                               | Inr (pts_in, pts_out) \<Rightarrow>
                                   Some (Emitted
                                     (export_attrs self (pt_x pt0) (pt_y pt0)
                                        (feature\<lparr>geometry :=
                                           build_geometry (shape_type self) inner_rad
                                             pts_in pts_out\<rparr>)))))))))"

text \<open>The method returns the list of output features and the object, whose counter the
  \<open>return []\<close> paths and the \<open>except\<close> clause increment; \<open>None\<close> when it never returns.\<close>

definition processFeature ::
  "env \<Rightarrow> CreateDonutAlgorithm \<Rightarrow> QgsFeature \<Rightarrow> QgsProcessingContext
     \<Rightarrow> (QgsFeature list \<times> CreateDonutAlgorithm) option" where
  "processFeature ev self feature ctx =
     (case try_body ev self feature ctx of
        None \<Rightarrow> None
      | Some (Emitted f) \<Rightarrow> Some ([f], self)
      | Some Skipped \<Rightarrow> Some ([], self\<lparr>num_bad := num_bad self + 1\<rparr>)
      | Some (Failed e) \<Rightarrow> Some ([], self\<lparr>num_bad := num_bad self + 1\<rparr>))"


section \<open>\<open>postProcessAlgorithm\<close>\<close>

text \<open>Python's \<open>str\<close> of an integer, for the two \<open>{}\<close> of the message.\<close>

fun str_nat :: "nat \<Rightarrow> string" where
  "str_nat n = (if n < 10 then [''0123456789'' ! n]
                else str_nat (n div 10) @ [''0123456789'' ! (n mod 10)])"

definition str_int :: "int \<Rightarrow> string" where
  "str_int i = (if i < 0 then CHR ''-'' # str_nat (nat (- i)) else str_nat (nat i))"

definition postProcessAlgorithm :: "CreateDonutAlgorithm \<Rightarrow> feedback_msg list \<Rightarrow> feedback_msg list" where
  "postProcessAlgorithm self feedback =
     (if num_bad self \<noteq> 0
      then feedback @ [pushInfo (str_nat (num_bad self) @ '' out of '' @ str_int (total_features self)
                                 @ '' features had invalid parameters and were ignored.'')]
      else feedback)"


section \<open>The run\<close>

text \<open>Modelled from the spec: the batch driver, which belongs to the host framework and is
  not part of the source file.  Section 4.7 gives its state machine: Configured, then
  Aborted when \<open>prepareAlgorithm\<close> returns false, else Ready; every feature is processed in
  turn and what \<open>processFeature\<close> returns is written to the output; then Completed, where
  \<open>postProcessAlgorithm\<close> runs.\<close>

fun process_all ::
  "env \<Rightarrow> CreateDonutAlgorithm \<Rightarrow> (QgsFeature \<times> QgsProcessingContext) list
     \<Rightarrow> (QgsFeature list \<times> CreateDonutAlgorithm) option" where
  "process_all ev self [] = Some ([], self)"
| "process_all ev self ((feature, ctx) # rest) =
     (case processFeature ev self feature ctx of
        None \<Rightarrow> None
      | Some (out, self') \<Rightarrow>
          (case process_all ev self' rest of
             None \<Rightarrow> None
           | Some (outs, self'') \<Rightarrow> Some (out @ outs, self'')))"

datatype run_result =
    Aborted "feedback_msg list"
  | Crashed exn
  | Completed "QgsFeature list" "feedback_msg list"

definition run ::
  "env \<Rightarrow> parameters \<Rightarrow> (QgsFeature \<times> QgsProcessingContext) list \<Rightarrow> run_result option" where
  "run ev prm features =
     (case prepareAlgorithm ev initParameters prm [] of
        Inl e \<Rightarrow> Some (Crashed e)
      | Inr (ok, self, feedback) \<Rightarrow>
          if \<not> ok then Some (Aborted feedback)
          else (case process_all ev self features of
                  None \<Rightarrow> None
                | Some (outs, self') \<Rightarrow> Some (Completed outs (postProcessAlgorithm self' feedback))))"


section \<open>Auxiliary notions for the proofs\<close>

text \<open>The number of times the body of the azimuth loop runs from \<open>angle\<close> on, counted with
  at most \<open>fuel\<close> steps: \<open>None\<close> when the fuel does not suffice.\<close>

fun iterations :: "real \<Rightarrow> real \<Rightarrow> nat \<Rightarrow> nat option" where
  "iterations spacing angle 0 = (if angle < 360 then None else Some 0)"
| "iterations spacing angle (Suc fuel) =
     (if angle < 360 then map_option Suc (iterations spacing (fl (angle + spacing)) fuel)
      else Some 0)"

text \<open>Two points traced along the same azimuth from the same centre, one at the inner and
  one at the outer radius.\<close>

definition same_azimuth :: "solver \<Rightarrow> real \<Rightarrow> real \<Rightarrow> real \<Rightarrow> real \<Rightarrow> QgsPointXY \<Rightarrow> QgsPointXY \<Rightarrow> bool" where
  "same_azimuth Direct lat lon inner_rad outer_rad p q =
     (\<exists>angle gi go. Direct lat lon angle inner_rad = Inr gi \<and> p = mk_point gi
                  \<and> Direct lat lon angle outer_rad = Inr go \<and> q = mk_point go)"

text \<open>What \<open>processFeature\<close> reads of the object: everything but the counter, and a radius
  property only when that radius is dynamic.\<close>

definition configuration :: "CreateDonutAlgorithm \<Rightarrow> CreateDonutAlgorithm" where
  "configuration self =
     self\<lparr>num_bad := 0,
          outer_radius_property := (if outer_radius_dyn self then outer_radius_property self else None),
          inner_radius_property := (if inner_radius_dyn self then inner_radius_property self else None)\<rparr>"


section \<open>Concrete inputs\<close>

text \<open>The feedback a finished run leaves behind.\<close>

fun summary :: "run_result \<Rightarrow> feedback_msg list" where
  "summary (Aborted feedback) = feedback"
| "summary (Crashed e) = []"
| "summary (Completed outs feedback) = feedback"

text \<open>A solver to run the code on: the direct problem on a sphere with 100 kilometres
  to the degree, for a centre on the equator and the azimuths 0, 90, 180 and 270, where the
  trace stays on the equator or on a meridian; longitudes are returned in \<open>[-180, 180)\<close>.
  It raises elsewhere, and when a meridian trace would pass a second pole.\<close>

definition wrap180 :: "real \<Rightarrow> real" where
  "wrap180 l = l - 360 * of_int \<lfloor>(l + 180) / 360\<rfloor>"

definition sphere_Direct :: solver where
  "sphere_Direct lat lon azimuth s =
     (let d = s / 100000 in
      if lat \<noteq> 0 then Inl (Raised ''centre off the equator'')
      else if azimuth = 90 then Inr \<lparr>lat2 = 0, lon2 = wrap180 (lon + d)\<rparr>
      else if azimuth = 270 then Inr \<lparr>lat2 = 0, lon2 = wrap180 (lon - d)\<rparr>
      else if azimuth = 0 \<or> azimuth = 180 then
        (let m = (if azimuth = 0 then d else - d) in
         if \<bar>m\<bar> \<le> 90 then Inr \<lparr>lat2 = m, lon2 = lon\<rparr>
         else if \<bar>m\<bar> \<le> 270
         then Inr \<lparr>lat2 = (if 0 < m then 180 - m else - 180 - m), lon2 = wrap180 (lon + 180)\<rparr>
         else Inl (Raised ''distance too long''))
      else Inl (Raised ''azimuth off the table''))"

definition demo_env :: env where
  "demo_env =
     \<lparr>geod_Direct = sphere_Direct,
      conversionToMeters = (\<lambda>units. if units = 0 then 1000 else 1),
      QgsCoordinateTransform = (\<lambda>src dst p. Inl (Raised ''no projection''))\<rparr>"

text \<open>A point layer in EPSG:4326 with one feature on the equator, close to the
  antimeridian; four segments, radii in kilometres.\<close>

definition demo_feature :: QgsFeature where
  "demo_feature = \<lparr>geometry = PointGeometry \<lparr>pt_x = 1439 / 8, pt_y = 0\<rparr>, attributes = [AttrOther ''a'']\<rparr>"

definition demo_parameters :: "real \<Rightarrow> real \<Rightarrow> parameters" where
  "demo_parameters outer inner =
     \<lparr>ShapeType = 0, OuterRadius = outer, OuterRadius_property = None,
      InnerRadius = inner, InnerRadius_property = None, UnitsOfMeasure = 0,
      DrawingSegments = 4, ExportInputGeometry = False,
      INPUT_sourceCrs = ''EPSG:4326'', INPUT_featureCount = 1\<rparr>"

text \<open>The object \<open>prepareAlgorithm\<close> builds from \<open>demo_parameters\<close>.\<close>

definition demo_self :: "real \<Rightarrow> real \<Rightarrow> CreateDonutAlgorithm" where
  "demo_self outer inner =
     \<lparr>shape_type = 0, export_geom = False, outer_radius = outer, outer_radius_dyn = False,
      outer_radius_property = None, inner_radius = inner, inner_radius_dyn = False,
      inner_radius_property = None, measure_factor = 1000,
      inner_radius_converted = fl (inner * 1000), outer_radius_converted = fl (outer * 1000),
      pt_spacing = 90, total_features = 1, geom_to_4326 = None, to_sink_crs = None,
      num_bad = 0\<rparr>"

text \<open>A dynamic radius read from the features: the expression fails on a feature without
  attributes, and gives the number in the first attribute otherwise.\<close>

definition first_attribute :: property where
  "first_attribute feature dflt =
     (case attributes feature of
        AttrDouble v # _ \<Rightarrow> Inr (v, True)
      | _ \<Rightarrow> Inr (dflt, False))"

text \<open>The same object with the inner radius read from the first attribute of each
  feature, and the demo feature with -25 there.\<close>

definition demo_self_dyn :: "real \<Rightarrow> CreateDonutAlgorithm" where
  "demo_self_dyn outer =
     (demo_self outer 10)\<lparr>inner_radius_dyn := True, inner_radius_property := Some first_attribute\<rparr>"

definition demo_feature_neg :: QgsFeature where
  "demo_feature_neg = demo_feature\<lparr>attributes := [AttrDouble (- 25)]\<rparr>"


section \<open>Evaluating the rounding\<close>

lemmas fl_eval = fl_def ilog2.simps pow2_def round_half_even_def Let_def

lemma fl_tenth: "fl (1 / 10) = 3602879701896397 / 36028797018963968"
  by (simp add: fl_eval)

lemma fl_quarters: "fl 90 = 90" "fl 180 = 180" "fl 270 = 270" "fl 360 = 360"
  by (simp_all add: fl_eval)

lemmas demo_eval = generate_rings_def ring_loop.simps fl_quarters sphere_Direct_def wrap180_def
  mk_point_def close_ring_def Let_def


section \<open>The number of points of a ring\<close>

text \<open>With a solver that never raises, the loop runs as often as \<open>iterations\<close> counts and
  appends one point to the outer list each time (and to the inner list when there is
  an inner ring).\<close>

lemma ring_loop_iterations:
  assumes "iterations spacing angle fuel = Some k"
  shows "\<exists>pts_in' pts_out'.
           ring_loop (\<lambda>lat lon az s. Inr (g lat lon az s)) lat lon inner_rad outer_rad spacing
             angle pts_in pts_out = Some (Inr (pts_in', pts_out'))
           \<and> length pts_out' = length pts_out + k
           \<and> length pts_in' = length pts_in + (if inner_rad = 0 then 0 else k)"
  using assms
proof (induction fuel arbitrary: angle pts_in pts_out k)
  case 0
  then have "\<not> angle < 360" "k = 0" by (auto split: if_splits)
  then show ?case by (subst ring_loop.simps) simp
next
  case (Suc fuel)
  show ?case
  proof (cases "angle < 360")
    case False
    with Suc.prems have "k = 0" by simp
    with False show ?thesis by (subst ring_loop.simps) simp
  next
    case True
    with Suc.prems obtain k' where k': "iterations spacing (fl (angle + spacing)) fuel = Some k'"
      and k: "k = Suc k'" by auto
    from Suc.IH [OF k', of "if inner_rad = 0 then pts_in else pts_in @ [mk_point (g lat lon angle inner_rad)]"
        "pts_out @ [mk_point (g lat lon angle outer_rad)]"]
    obtain a b where
      "ring_loop (\<lambda>lat lon az s. Inr (g lat lon az s)) lat lon inner_rad outer_rad spacing
         (fl (angle + spacing))
         (if inner_rad = 0 then pts_in else pts_in @ [mk_point (g lat lon angle inner_rad)])
         (pts_out @ [mk_point (g lat lon angle outer_rad)]) = Some (Inr (a, b))"
      and "length b = length (pts_out @ [mk_point (g lat lon angle outer_rad)]) + k'"
      and "length a = length (if inner_rad = 0 then pts_in else pts_in @ [mk_point (g lat lon angle inner_rad)])
               + (if inner_rad = 0 then 0 else k')"
      by blast
    then show ?thesis using True k
      by (subst ring_loop.simps) (auto split: if_splits)
  qed
qed

text \<open>The accumulated azimuth after 13 additions of \<open>fl (360 / 13)\<close> is still below 360
  (it is \<open>360 - 2 ^ -43\<close>), so the body runs a fourteenth time; with 36 segments, the
  default, it runs 36 times.\<close>

lemma iterations_13: "iterations (fl (360 / 13)) 0 14 = Some 14"
  by (simp add: fl_eval eval_nat_numeral)

lemma iterations_36: "iterations (fl (360 / 36)) 0 36 = Some 36"
  by (simp add: fl_eval eval_nat_numeral)

text \<open>
  Claim C1: for every radius > 0 and every segment count >= 4, ring generation gives a
  closed ring of exactly segmentCount + 1 points.  The code does not: with 13 segments
  the spacing is \<open>fl (360 / 13)\<close>, the loop runs 14 times whatever the solver returns,
  whatever the centre and the radii, and the closed outer ring has 15 points, not 14.
  The ring is still closed (its last point is its first).
\<close>

theorem ring_13_segments_has_15_points:
  "pt_spacing_of 13 = Inr (fl (360 / 13)) \<and>
   (\<exists>pts_in pts_out.
      generate_rings (\<lambda>lat lon az s. Inr (g lat lon az s)) lat lon inner_rad outer_rad (fl (360 / 13))
        = Some (Inr (pts_in, pts_out))
      \<and> length pts_out = 13 + 2 \<and> last pts_out = hd pts_out)"
proof -
  obtain a b where loop: "ring_loop (\<lambda>lat lon az s. Inr (g lat lon az s)) lat lon inner_rad outer_rad
      (fl (360 / 13)) 0 [] [] = Some (Inr (a, b))"
    and lb: "length b = 14" and la: "length a = (if inner_rad = 0 then 0 else 14)"
    using ring_loop_iterations [OF iterations_13, of g lat lon inner_rad outer_rad "[]" "[]"] by auto
  from lb obtain p ps where b: "b = p # ps" by (cases b) auto
  have a: "inner_rad \<noteq> 0 \<Longrightarrow> \<exists>q qs. a = q # qs" using la by (cases a) auto
  have "generate_rings (\<lambda>lat lon az s. Inr (g lat lon az s)) lat lon inner_rad outer_rad (fl (360 / 13))
        = Some (Inr (if inner_rad = 0 then a else a @ [hd a], b @ [p]))"
    using loop b a by (auto simp: generate_rings_def close_ring_def)
  moreover have "length (b @ [p]) = 13 + 2" using lb by simp
  moreover have "last (b @ [p]) = hd (b @ [p])" using b by simp
  ultimately show ?thesis by (simp add: pt_spacing_of_def)
qed


section \<open>The two rings, point by point\<close>

text \<open>The loop appends to both lists in the same pass, so the lists stay paired: the
  points at the same index come from the same azimuth.\<close>

lemma ring_loop_pairs:
  assumes "ring_loop Direct lat lon inner_rad outer_rad spacing angle pts_in pts_out = Some r"
    and "inner_rad \<noteq> 0"
    and "list_all2 (same_azimuth Direct lat lon inner_rad outer_rad) pts_in pts_out"
  shows "case r of Inl e \<Rightarrow> True
         | Inr (a, b) \<Rightarrow> list_all2 (same_azimuth Direct lat lon inner_rad outer_rad) a b"
proof -
  let ?P = "\<lambda>D la lo inn out (sp::real) (an::real) pin pout r.
              inn \<noteq> 0 \<longrightarrow> list_all2 (same_azimuth D la lo inn out) pin pout \<longrightarrow>
              (case r of Inl (e::exn) \<Rightarrow> True
               | Inr (a, b) \<Rightarrow> list_all2 (same_azimuth D la lo inn out) a b)"
  have "?P Direct lat lon inner_rad outer_rad spacing angle pts_in pts_out r"
  proof (rule ring_loop.raw_induct [where P = ?P, OF _ assms(1)], intro impI)
    fix loop D la lo inn out sp an pin pout r
    assume IH: "\<And>D la lo inn out sp an pin pout r.
                  loop D la lo inn out sp an pin pout = Some r \<Longrightarrow> ?P D la lo inn out sp an pin pout r"
      and body: "(if an < 360 then
                    (case (if inn \<noteq> 0
                           then (case D la lo an inn of
                                   Inl e \<Rightarrow> Inl e
                                 | Inr g \<Rightarrow> Inr (pin @ [mk_point g]))
                           else Inr pin) of
                       Inl e \<Rightarrow> Some (Inl e)
                     | Inr pts_in' \<Rightarrow>
                         (case D la lo an out of
                            Inl e \<Rightarrow> Some (Inl e)
                          | Inr g \<Rightarrow> loop D la lo inn out sp (fl (an + sp)) pts_in' (pout @ [mk_point g])))
                  else Some (Inr (pin, pout))) = Some r"
      and nz: "inn \<noteq> 0"
      and inv: "list_all2 (same_azimuth D la lo inn out) pin pout"
    show "case r of Inl e \<Rightarrow> True | Inr (a, b) \<Rightarrow> list_all2 (same_azimuth D la lo inn out) a b"
    proof (cases "an < 360")
      case False
      with body have "r = Inr (pin, pout)" by simp
      with inv show ?thesis by simp
    next
      case True
      show ?thesis
      proof (cases "D la lo an inn")
        case (Inl e)
        with True body nz have "r = Inl e" by simp
        then show ?thesis by simp
      next
        case gi: (Inr gi)
        show ?thesis
        proof (cases "D la lo an out")
          case (Inl e)
          with True gi body nz have "r = Inl e" by simp
          then show ?thesis by simp
        next
          case go: (Inr go)
          have step: "loop D la lo inn out sp (fl (an + sp))
                    (pin @ [mk_point gi]) (pout @ [mk_point go]) = Some r"
            using True gi go body nz by simp
          have "same_azimuth D la lo inn out (mk_point gi) (mk_point go)"
            unfolding same_azimuth_def using gi go by blast
          then have "list_all2 (same_azimuth D la lo inn out)
                       (pin @ [mk_point gi]) (pout @ [mk_point go])"
            using inv by (simp add: list_all2_appendI)
          with IH [OF step] nz show ?thesis by blast
        qed
      qed
    qed
  qed
  with assms(2,3) show ?thesis by blast
qed

lemma generate_rings_pairs:
  assumes "generate_rings Direct lat lon inner_rad outer_rad spacing = Some (Inr (pts_in, pts_out))"
    and "inner_rad \<noteq> 0"
  shows "list_all2 (same_azimuth Direct lat lon inner_rad outer_rad) pts_in pts_out
         \<and> pts_in \<noteq> [] \<and> last pts_in = hd pts_in \<and> last pts_out = hd pts_out"
proof -
  from assms obtain a b where loop: "ring_loop Direct lat lon inner_rad outer_rad spacing 0 [] [] = Some (Inr (a, b))"
    and ca: "close_ring a = Inr pts_in" and cb: "close_ring b = Inr pts_out"
    by (auto simp: generate_rings_def split: option.splits sum.splits if_splits)
  have ab: "list_all2 (same_azimuth Direct lat lon inner_rad outer_rad) a b"
    using ring_loop_pairs [OF loop assms(2)] by simp
  from ca obtain p ps where a: "a = p # ps" and pin: "pts_in = a @ [p]"
    by (auto simp: close_ring_def split: list.splits)
  from cb obtain q qs where b: "b = q # qs" and pout: "pts_out = b @ [q]"
    by (auto simp: close_ring_def split: list.splits)
  have "same_azimuth Direct lat lon inner_rad outer_rad p q" using ab a b by simp
  then have "list_all2 (same_azimuth Direct lat lon inner_rad outer_rad) pts_in pts_out"
    using ab pin pout by (simp add: list_all2_appendI)
  then show ?thesis using a b pin pout by simp
qed









section \<open>Errors and the radii\<close>

lemma processFeature_dropped:
  assumes "try_body ev self feature ctx = Some r" and "\<forall>f. r \<noteq> Emitted f"
  shows "processFeature ev self feature ctx = Some ([], self\<lparr>num_bad := num_bad self + 1\<rparr>)"
  using assms by (cases r) (auto simp: processFeature_def)

lemma try_body_inner_None:
  assumes "resolve_inner self ctx = Inr None"
  shows "\<exists>r. try_body ev self feature ctx = Some r \<and> (\<forall>f. r \<noteq> Emitted f)"
proof (cases "asPoint (geometry feature)")
  case (Inl e)
  then show ?thesis by (simp add: try_body_def)
next
  case p0: (Inr pt0)
  show ?thesis
  proof (cases "to_4326 self pt0")
    case (Inl e)
    with p0 show ?thesis by (simp add: try_body_def)
  next
    case (Inr pt)
    with p0 assms show ?thesis by (simp add: try_body_def)
  qed
qed

lemma try_body_outer_None:
  assumes "resolve_outer self ctx = Inr None"
  shows "\<exists>r. try_body ev self feature ctx = Some r \<and> (\<forall>f. r \<noteq> Emitted f)"
proof (cases "asPoint (geometry feature)")
  case (Inl e)
  then show ?thesis by (simp add: try_body_def)
next
  case p0: (Inr pt0)
  show ?thesis
  proof (cases "to_4326 self pt0")
    case (Inl e)
    with p0 show ?thesis by (simp add: try_body_def)
  next
    case p: (Inr pt)
    show ?thesis
    proof (cases "resolve_inner self ctx")
      case (Inl e)
      with p0 p show ?thesis by (simp add: try_body_def)
    next
      case (Inr ri)
      with p0 p assms show ?thesis by (cases ri) (simp_all add: try_body_def)
    qed
  qed
qed

lemma resolve_inner_failure:
  assumes "inner_radius_dyn self" "inner_radius_property self = Some prop"
    and "prop (expressionContext ctx) (inner_radius self) = Inr (v, False)"
  shows "resolve_inner self ctx = Inr None"
  using assms by (simp add: resolve_inner_def)

lemma resolve_outer_failure:
  assumes "outer_radius_dyn self" "outer_radius_property self = Some prop"
    and "prop (expressionContext ctx) (outer_radius self) = Inr (v, e)"
    and "\<not> e \<or> fl (v * measure_factor self) \<le> 0"
  shows "resolve_outer self ctx = Inr None"
  using assms by (auto simp: resolve_outer_def Let_def)

text \<open>
  Claim C3: every per-feature error (a dynamic radius expression that fails to evaluate, a
  resolved outer radius <= 0, or any exception raised in the body) drops the feature:
  \<open>processFeature\<close> returns no feature, the bad-feature counter goes up by one, and the
  run goes on with the next feature from that state.
\<close>

theorem feature_error_skips_feature:
  assumes "(inner_radius_dyn self \<and> inner_radius_property self = Some prop_in
              \<and> prop_in (expressionContext ctx) (inner_radius self) = Inr (v_in, False))
         \<or> (outer_radius_dyn self \<and> outer_radius_property self = Some prop_out
              \<and> prop_out (expressionContext ctx) (outer_radius self) = Inr (v_out, e_out)
              \<and> (\<not> e_out \<or> fl (v_out * measure_factor self) \<le> 0))
         \<or> try_body ev self feature ctx = Some (Failed e)"
  shows "processFeature ev self feature ctx = Some ([], self\<lparr>num_bad := num_bad self + 1\<rparr>)
         \<and> process_all ev self ((feature, ctx) # rest)
             = process_all ev (self\<lparr>num_bad := num_bad self + 1\<rparr>) rest"
proof -
  have "\<exists>r. try_body ev self feature ctx = Some r \<and> (\<forall>f. r \<noteq> Emitted f)"
  proof -
    consider
      (inner) "inner_radius_dyn self" "inner_radius_property self = Some prop_in"
        "prop_in (expressionContext ctx) (inner_radius self) = Inr (v_in, False)"
    | (outer) "outer_radius_dyn self" "outer_radius_property self = Some prop_out"
        "prop_out (expressionContext ctx) (outer_radius self) = Inr (v_out, e_out)"
        "\<not> e_out \<or> fl (v_out * measure_factor self) \<le> 0"
    | (raised) "try_body ev self feature ctx = Some (Failed e)"
      using assms by blast
    then show ?thesis
    proof cases
      case inner
      then have "resolve_inner self ctx = Inr None" by (rule resolve_inner_failure)
      then show ?thesis by (rule try_body_inner_None)
    next
      case outer
      then have "resolve_outer self ctx = Inr None" by (rule resolve_outer_failure)
      then show ?thesis by (rule try_body_outer_None)
    next
      case raised
      then show ?thesis by simp
    qed
  qed
  then obtain r where "try_body ev self feature ctx = Some r" "\<forall>f. r \<noteq> Emitted f" by blast
  then have "processFeature ev self feature ctx = Some ([], self\<lparr>num_bad := num_bad self + 1\<rparr>)"
    by (rule processFeature_dropped)
  then show ?thesis by (simp split: option.splits)
qed

text \<open>
  Claim C4: when the configured outer radius is <= 0, \<open>prepareAlgorithm\<close> reports the
  configuration error and returns false, and the run is aborted before any feature is
  processed, whatever the features are.
\<close>

theorem nonpositive_outer_radius_aborts:
  assumes "OuterRadius prm \<le> 0"
  shows "prepareAlgorithm ev self prm feedback =
           Inr (False, self\<lparr>shape_type := ShapeType prm, outer_radius := OuterRadius prm\<rparr>,
                feedback @ [reportError ''Outer radius parameter must be greater than 0''])
         \<and> run ev prm features =
             Some (Aborted [reportError ''Outer radius parameter must be greater than 0''])"
  using assms by (simp add: prepareAlgorithm_def run_def Let_def)

text \<open>Scenario C of the spec: a fixed outer radius of -5.\<close>

theorem nonpositive_outer_radius_aborts_witness:
  "run demo_env (demo_parameters (- 5) 10) [(demo_feature, \<lparr>expressionContext = demo_feature\<rparr>)]
     = Some (Aborted [reportError ''Outer radius parameter must be greater than 0''])"
proof -
  have "OuterRadius (demo_parameters (- 5) 10) \<le> 0" by (simp add: demo_parameters_def)
  from nonpositive_outer_radius_aborts [OF this, of demo_env initParameters "[]"]
  show ?thesis by blast
qed


section \<open>The emitted feature\<close>

lemma fl_0: "fl 0 = 0"
  by (simp add: fl_def)

lemmas process_eval = processFeature_def try_body_def to_4326_def resolve_inner_def
  resolve_outer_def normalize_rings_def makeIdlCrossingsPositive_def shift_positive_def
  transform_rings_def build_geometry_def export_attrs_def demo_self_def demo_env_def
  demo_feature_def

text \<open>A feature off the equator: the demo solver raises at the first call.\<close>

lemma demo_solver_raises:
  "try_body demo_env (demo_self 50 25)
     \<lparr>geometry = PointGeometry \<lparr>pt_x = 10, pt_y = 20\<rparr>, attributes = []\<rparr> ctx
   = Some (Failed (Raised ''centre off the equator''))"
  by (simp add: process_eval demo_eval fl_eval)

theorem feature_error_skips_feature_witness:
  "processFeature demo_env (demo_self 50 25)
     \<lparr>geometry = PointGeometry \<lparr>pt_x = 10, pt_y = 20\<rparr>, attributes = []\<rparr>
     \<lparr>expressionContext = demo_feature\<rparr>
   = Some ([], (demo_self 50 25)\<lparr>num_bad := 1\<rparr>)"
  using feature_error_skips_feature [OF disjI2, OF disjI2, OF demo_solver_raises,
      of "\<lparr>expressionContext = demo_feature\<rparr>" "[]"]
  by (simp add: demo_self_def)

lemma try_body_Emitted:
  assumes "try_body ev self feature ctx = Some (Emitted f)"
  shows "\<exists>pt0 pt inner_rad outer_rad rings pts_in pts_out.
           asPoint (geometry feature) = Inr pt0 \<and> to_4326 self pt0 = Inr pt
           \<and> resolve_inner self ctx = Inr (Some inner_rad)
           \<and> resolve_outer self ctx = Inr (Some outer_rad)
           \<and> generate_rings (geod_Direct ev) (pt_y pt) (pt_x pt) inner_rad outer_rad
                (pt_spacing self) = Some (Inr rings)
           \<and> transform_rings self inner_rad (normalize_rings inner_rad rings) = Inr (pts_in, pts_out)
           \<and> f = export_attrs self (pt_x pt0) (pt_y pt0)
                   (feature\<lparr>geometry := build_geometry (shape_type self) inner_rad pts_in pts_out\<rparr>)"
  using assms
  by (auto simp: try_body_def split: sum.splits option.splits prod.splits)

lemma processFeature_Emitted:
  assumes "processFeature ev self feature ctx = Some ([f], self')"
  shows "try_body ev self feature ctx = Some (Emitted f) \<and> self' = self"
  using assms by (auto simp: processFeature_def split: option.splits outcome.splits)

lemma try_body_Emitted_geometry:
  assumes "try_body ev self feature ctx = Some (Emitted f)"
  shows "\<exists>inner_rad pts_in pts_out.
           resolve_inner self ctx = Inr (Some inner_rad)
           \<and> geometry f = build_geometry (shape_type self) inner_rad pts_in pts_out"
proof -
  from try_body_Emitted [OF assms] obtain pt0 pt inner_rad outer_rad rings pts_in pts_out where
    "asPoint (geometry feature) = Inr pt0 \<and> to_4326 self pt0 = Inr pt
           \<and> resolve_inner self ctx = Inr (Some inner_rad)
           \<and> resolve_outer self ctx = Inr (Some outer_rad)
           \<and> generate_rings (geod_Direct ev) (pt_y pt) (pt_x pt) inner_rad outer_rad
                (pt_spacing self) = Some (Inr rings)
           \<and> transform_rings self inner_rad (normalize_rings inner_rad rings) = Inr (pts_in, pts_out)
           \<and> f = export_attrs self (pt_x pt0) (pt_y pt0)
                   (feature\<lparr>geometry := build_geometry (shape_type self) inner_rad pts_in pts_out\<rparr>)"
    by (elim exE)
  then have "resolve_inner self ctx = Inr (Some inner_rad)"
    and "geometry f = build_geometry (shape_type self) inner_rad pts_in pts_out"
    by (simp_all add: export_attrs_def)
  then show ?thesis by (intro exI conjI)
qed

text \<open>
  Claim C5: when the resolved inner radius is exactly 0, the emitted geometry holds a
  single ring: a polygon without hole for shape type 0, a single line otherwise.
\<close>

theorem zero_inner_radius_no_hole:
  assumes "resolve_inner self ctx = Inr (Some 0)"
    and "processFeature ev self feature ctx = Some ([f], self')"
  shows "\<exists>ring. geometry f = (if shape_type self = 0 then PolygonXY [ring]
                               else MultiPolylineXY [ring])"
proof -
  from assms(2) have "try_body ev self feature ctx = Some (Emitted f)"
    by (simp add: processFeature_Emitted)
  from try_body_Emitted_geometry [OF this] obtain inner_rad pts_in pts_out where
    ri: "resolve_inner self ctx = Inr (Some inner_rad)" and
    g: "geometry f = build_geometry (shape_type self) inner_rad pts_in pts_out"
    by (elim exE conjE)
  from ri assms(1) have "inner_rad = 0" by simp
  with g show ?thesis by (auto simp: build_geometry_def)
qed

text \<open>The demo feature with an outer radius of 50 km and no inner radius: the ring crosses
  the antimeridian and is shifted to the positive side.\<close>

lemma demo_process_disc:
  "processFeature demo_env (demo_self 50 0) demo_feature \<lparr>expressionContext = demo_feature\<rparr> =
     Some ([demo_feature\<lparr>geometry :=
              PolygonXY [[\<lparr>pt_x = 1439 / 8, pt_y = 1 / 2\<rparr>, \<lparr>pt_x = 1443 / 8, pt_y = 0\<rparr>,
                          \<lparr>pt_x = 1439 / 8, pt_y = - (1 / 2)\<rparr>, \<lparr>pt_x = 1435 / 8, pt_y = 0\<rparr>,
                          \<lparr>pt_x = 1439 / 8, pt_y = 1 / 2\<rparr>]]\<rparr>],
           demo_self 50 0)"
  by (simp add: process_eval demo_eval fl_eval)

theorem zero_inner_radius_no_hole_witness:
  "\<exists>ring. geometry (demo_feature\<lparr>geometry :=
              PolygonXY [[\<lparr>pt_x = 1439 / 8, pt_y = 1 / 2\<rparr>, \<lparr>pt_x = 1443 / 8, pt_y = 0\<rparr>,
                          \<lparr>pt_x = 1439 / 8, pt_y = - (1 / 2)\<rparr>, \<lparr>pt_x = 1435 / 8, pt_y = 0\<rparr>,
                          \<lparr>pt_x = 1439 / 8, pt_y = 1 / 2\<rparr>]]\<rparr>) = PolygonXY [ring]"
proof -
  have "resolve_inner (demo_self 50 0) \<lparr>expressionContext = demo_feature\<rparr> = Inr (Some 0)"
    by (simp add: resolve_inner_def demo_self_def fl_0)
  from zero_inner_radius_no_hole [OF this demo_process_disc]
  show ?thesis by (simp add: demo_self_def)
qed


section \<open>Antimeridian normalisation\<close>

text \<open>Rounding keeps the sign: a number that is not negative rounds to one that is not
  negative, so a longitude in \<open>[-360, 0)\<close> shifted by 360 is not negative.\<close>

lemma pow2_pos: "0 < pow2 e"
  by (simp add: pow2_def)

lemma round_half_even_nonneg: "0 \<le> q \<Longrightarrow> 0 \<le> round_half_even q"
  by (simp add: round_half_even_def Let_def)

lemma fl_nonneg:
  assumes "0 \<le> q"
  shows "0 \<le> fl q"
proof (cases "q = 0")
  case True
  then show ?thesis by (simp add: fl_def)
next
  case False
  define e where "e = ilog2 \<bar>q\<bar> - 52"
  have "0 \<le> q / pow2 e" using assms pow2_pos [of e] by simp
  then have "0 \<le> round_half_even (q / pow2 e)" by (rule round_half_even_nonneg)
  then have "0 \<le> of_int (round_half_even (q / pow2 e)) * pow2 e"
    using pow2_pos [of e] by simp
  with False show ?thesis by (simp add: fl_def Let_def e_def)
qed

lemma shift_positive_nonneg:
  assumes "- 360 \<le> pt_x p"
  shows "0 \<le> pt_x (shift_positive p)"
proof (cases "pt_x p < 0")
  case True
  have "0 \<le> fl (pt_x p + 360)" using assms by (intro fl_nonneg) simp
  with True show ?thesis by (simp add: shift_positive_def)
next
  case False
  then show ?thesis by (simp add: shift_positive_def)
qed

text \<open>With an inner ring, the normalisation shifts both rings or neither, by the test on
  the outer ring; without a transformation back, the rings stay as they are.\<close>

lemma normalize_rings_both:
  assumes "inner_rad \<noteq> 0"
  shows "normalize_rings inner_rad (gen_in, gen_out) =
           (if hasIdlCrossing gen_out
            then (map shift_positive gen_in, map shift_positive gen_out)
            else (gen_in, gen_out))"
  using assms by (simp add: normalize_rings_def makeIdlCrossingsPositive_def)

lemma transform_rings_None:
  assumes "to_sink_crs self = None"
  shows "transform_rings self inner_rad rings = Inr rings"
  using assms by (cases rings) (simp add: transform_rings_def)

text \<open>
  Claim C2, as the code has it: for every feature that \<open>processFeature\<close> emits with both
  rings (resolved inner radius not 0), the rings that reach the output are the generated
  rings after one common normalisation decided by the outer ring: when the generated outer
  ring crosses the antimeridian, every point of both rings is shifted to the positive side
  (longitudes of at least -360 end at 0 or above); when it does not cross, neither ring is
  changed.  The normalised rings then pass the transformation back (nothing happens to
  them when there is none) and become the two rings of the geometry, outer ring first.
\<close>

theorem outer_crossing_normalizes_both:
  assumes "processFeature ev self feature ctx = Some ([f], self')"
    and "resolve_inner self ctx = Inr (Some inner_rad)"
    and "inner_rad \<noteq> 0"
  shows "\<exists>pt0 pt outer_rad gen_in gen_out norm_in norm_out pts_in pts_out.
           asPoint (geometry feature) = Inr pt0 \<and> to_4326 self pt0 = Inr pt
           \<and> resolve_outer self ctx = Inr (Some outer_rad)
           \<and> generate_rings (geod_Direct ev) (pt_y pt) (pt_x pt) inner_rad outer_rad (pt_spacing self)
               = Some (Inr (gen_in, gen_out))
           \<and> (norm_in, norm_out) =
                (if hasIdlCrossing gen_out
                 then (map shift_positive gen_in, map shift_positive gen_out)
                 else (gen_in, gen_out))
           \<and> (hasIdlCrossing gen_out \<longrightarrow>
                (\<forall>p \<in> set gen_in \<union> set gen_out. - 360 \<le> pt_x p) \<longrightarrow>
                (\<forall>p \<in> set norm_in \<union> set norm_out. 0 \<le> pt_x p))
           \<and> transform_rings self inner_rad (norm_in, norm_out) = Inr (pts_in, pts_out)
           \<and> (to_sink_crs self = None \<longrightarrow> pts_in = norm_in \<and> pts_out = norm_out)
           \<and> geometry f = (if shape_type self = 0 then PolygonXY [pts_out, pts_in]
                           else MultiPolylineXY [pts_out, pts_in])"
proof -
  from assms(1) have "try_body ev self feature ctx = Some (Emitted f)"
    by (simp add: processFeature_Emitted)
  from try_body_Emitted [OF this] obtain pt0 pt r outer_rad rings pts_in pts_out where
    H: "asPoint (geometry feature) = Inr pt0 \<and> to_4326 self pt0 = Inr pt
           \<and> resolve_inner self ctx = Inr (Some r)
           \<and> resolve_outer self ctx = Inr (Some outer_rad)
           \<and> generate_rings (geod_Direct ev) (pt_y pt) (pt_x pt) r outer_rad
                (pt_spacing self) = Some (Inr rings)
           \<and> transform_rings self r (normalize_rings r rings) = Inr (pts_in, pts_out)
           \<and> f = export_attrs self (pt_x pt0) (pt_y pt0)
                   (feature\<lparr>geometry := build_geometry (shape_type self) r pts_in pts_out\<rparr>)"
    by (elim exE)
  from H assms(2) have r: "r = inner_rad" by simp
  obtain gen_in gen_out where rings: "rings = (gen_in, gen_out)" by (cases rings)
  define norm_in where "norm_in = (if hasIdlCrossing gen_out then map shift_positive gen_in else gen_in)"
  define norm_out where "norm_out = (if hasIdlCrossing gen_out then map shift_positive gen_out else gen_out)"
  have n: "normalize_rings inner_rad rings = (norm_in, norm_out)"
    using normalize_rings_both [OF assms(3)] by (simp add: rings norm_in_def norm_out_def)
  have 1: "asPoint (geometry feature) = Inr pt0" using H by simp
  have 2: "to_4326 self pt0 = Inr pt" using H by simp
  have 3: "resolve_outer self ctx = Inr (Some outer_rad)" using H by simp
  have 4: "generate_rings (geod_Direct ev) (pt_y pt) (pt_x pt) inner_rad outer_rad (pt_spacing self)
               = Some (Inr (gen_in, gen_out))" using H r rings by simp
  have 5: "(norm_in, norm_out) =
                (if hasIdlCrossing gen_out
                 then (map shift_positive gen_in, map shift_positive gen_out)
                 else (gen_in, gen_out))" by (simp add: norm_in_def norm_out_def)
  have 6: "hasIdlCrossing gen_out \<longrightarrow>
                (\<forall>p \<in> set gen_in \<union> set gen_out. - 360 \<le> pt_x p) \<longrightarrow>
                (\<forall>p \<in> set norm_in \<union> set norm_out. 0 \<le> pt_x p)"
    by (auto simp: norm_in_def norm_out_def shift_positive_nonneg)
  have 7: "transform_rings self inner_rad (norm_in, norm_out) = Inr (pts_in, pts_out)"
    using H r n by simp
  have 8: "to_sink_crs self = None \<longrightarrow> pts_in = norm_in \<and> pts_out = norm_out"
    using 7 by (auto simp: transform_rings_None)
  have "geometry f = build_geometry (shape_type self) inner_rad pts_in pts_out"
    using H r by (simp add: export_attrs_def)
  then have 9: "geometry f = (if shape_type self = 0 then PolygonXY [pts_out, pts_in]
                           else MultiPolylineXY [pts_out, pts_in])"
    using assms(3) by (simp add: build_geometry_def)
  from 1 2 3 4 5 6 7 8 9 show ?thesis by (intro exI conjI)
qed

text \<open>The demo feature with radii of 25 km and 50 km: both rings reach over the
  antimeridian, and the point of each ring beyond it moves from the negative to the
  positive side.\<close>

lemma demo_self_num_bad: "num_bad (demo_self outer inner) = 0"
  by (simp add: demo_self_def)

lemma fl_thousands: "fl 25000 = 25000" "fl 50000 = 50000" "fl (- 25000) = - 25000"
  by (simp_all add: fl_eval)

lemma demo_rings_near:
  "generate_rings sphere_Direct 0 (1439 / 8) 25000 50000 90 =
     Some (Inr ([\<lparr>pt_x = 1439 / 8, pt_y = 1 / 4\<rparr>, \<lparr>pt_x = - (1439 / 8), pt_y = 0\<rparr>,
                 \<lparr>pt_x = 1439 / 8, pt_y = - (1 / 4)\<rparr>, \<lparr>pt_x = 1437 / 8, pt_y = 0\<rparr>,
                 \<lparr>pt_x = 1439 / 8, pt_y = 1 / 4\<rparr>],
                [\<lparr>pt_x = 1439 / 8, pt_y = 1 / 2\<rparr>, \<lparr>pt_x = - (1437 / 8), pt_y = 0\<rparr>,
                 \<lparr>pt_x = 1439 / 8, pt_y = - (1 / 2)\<rparr>, \<lparr>pt_x = 1435 / 8, pt_y = 0\<rparr>,
                 \<lparr>pt_x = 1439 / 8, pt_y = 1 / 2\<rparr>]))"
  by (simp add: demo_eval)

lemma demo_process_donut:
  "processFeature demo_env (demo_self 50 25) demo_feature \<lparr>expressionContext = demo_feature\<rparr> =
     Some ([demo_feature\<lparr>geometry := PolygonXY
              [[\<lparr>pt_x = 1439 / 8, pt_y = 1 / 2\<rparr>, \<lparr>pt_x = 1443 / 8, pt_y = 0\<rparr>,
                \<lparr>pt_x = 1439 / 8, pt_y = - (1 / 2)\<rparr>, \<lparr>pt_x = 1435 / 8, pt_y = 0\<rparr>,
                \<lparr>pt_x = 1439 / 8, pt_y = 1 / 2\<rparr>],
               [\<lparr>pt_x = 1439 / 8, pt_y = 1 / 4\<rparr>, \<lparr>pt_x = 1441 / 8, pt_y = 0\<rparr>,
                \<lparr>pt_x = 1439 / 8, pt_y = - (1 / 4)\<rparr>, \<lparr>pt_x = 1437 / 8, pt_y = 0\<rparr>,
                \<lparr>pt_x = 1439 / 8, pt_y = 1 / 4\<rparr>]]\<rparr>],
           demo_self 50 25)"
  by (simp add: process_eval demo_eval fl_eval)

theorem outer_crossing_normalizes_both_witness:
  "\<exists>gen_in gen_out.
     generate_rings sphere_Direct 0 (1439 / 8) 25000 50000 90 = Some (Inr (gen_in, gen_out))
     \<and> hasIdlCrossing gen_out
     \<and> PolygonXY
          [[\<lparr>pt_x = 1439 / 8, pt_y = 1 / 2\<rparr>, \<lparr>pt_x = 1443 / 8, pt_y = 0\<rparr>,
            \<lparr>pt_x = 1439 / 8, pt_y = - (1 / 2)\<rparr>, \<lparr>pt_x = 1435 / 8, pt_y = 0\<rparr>,
            \<lparr>pt_x = 1439 / 8, pt_y = 1 / 2\<rparr>],
           [\<lparr>pt_x = 1439 / 8, pt_y = 1 / 4\<rparr>, \<lparr>pt_x = 1441 / 8, pt_y = 0\<rparr>,
            \<lparr>pt_x = 1439 / 8, pt_y = - (1 / 4)\<rparr>, \<lparr>pt_x = 1437 / 8, pt_y = 0\<rparr>,
            \<lparr>pt_x = 1439 / 8, pt_y = 1 / 4\<rparr>]]
        = PolygonXY [map shift_positive gen_out, map shift_positive gen_in]"
proof -
  have ri: "resolve_inner (demo_self 50 25) \<lparr>expressionContext = demo_feature\<rparr> = Inr (Some 25000)"
    by (simp add: resolve_inner_def demo_self_def fl_thousands)
  have nz: "(25000::real) \<noteq> 0" by simp
  from outer_crossing_normalizes_both [OF demo_process_donut ri nz]
  obtain pt0 pt outer_rad gen_in gen_out norm_in norm_out pts_in pts_out where
    1: "asPoint (geometry demo_feature) = Inr pt0" and
    2: "to_4326 (demo_self 50 25) pt0 = Inr pt" and
    3: "resolve_outer (demo_self 50 25) \<lparr>expressionContext = demo_feature\<rparr> = Inr (Some outer_rad)" and
    4: "generate_rings (geod_Direct demo_env) (pt_y pt) (pt_x pt) 25000 outer_rad
          (pt_spacing (demo_self 50 25)) = Some (Inr (gen_in, gen_out))" and
    5: "(norm_in, norm_out) =
          (if hasIdlCrossing gen_out
           then (map shift_positive gen_in, map shift_positive gen_out)
           else (gen_in, gen_out))" and
    8: "to_sink_crs (demo_self 50 25) = None \<longrightarrow> pts_in = norm_in \<and> pts_out = norm_out" and
    9: "geometry (demo_feature\<lparr>geometry := PolygonXY
              [[\<lparr>pt_x = 1439 / 8, pt_y = 1 / 2\<rparr>, \<lparr>pt_x = 1443 / 8, pt_y = 0\<rparr>,
                \<lparr>pt_x = 1439 / 8, pt_y = - (1 / 2)\<rparr>, \<lparr>pt_x = 1435 / 8, pt_y = 0\<rparr>,
                \<lparr>pt_x = 1439 / 8, pt_y = 1 / 2\<rparr>],
               [\<lparr>pt_x = 1439 / 8, pt_y = 1 / 4\<rparr>, \<lparr>pt_x = 1441 / 8, pt_y = 0\<rparr>,
                \<lparr>pt_x = 1439 / 8, pt_y = - (1 / 4)\<rparr>, \<lparr>pt_x = 1437 / 8, pt_y = 0\<rparr>,
                \<lparr>pt_x = 1439 / 8, pt_y = 1 / 4\<rparr>]]\<rparr>)
         = (if shape_type (demo_self 50 25) = 0 then PolygonXY [pts_out, pts_in]
            else MultiPolylineXY [pts_out, pts_in])"
    by (elim exE conjE)
  from 1 have pt0: "pt0 = \<lparr>pt_x = 1439 / 8, pt_y = 0\<rparr>" by (simp add: demo_feature_def)
  from 2 have pt: "pt = pt0" by (simp add: to_4326_def demo_self_def)
  from 3 have o: "outer_rad = 50000" by (simp add: resolve_outer_def demo_self_def fl_thousands)
  from 4 have g: "generate_rings sphere_Direct 0 (1439 / 8) 25000 50000 90 = Some (Inr (gen_in, gen_out))"
    by (simp add: pt pt0 o demo_env_def demo_self_def)
  with demo_rings_near have gen: "gen_out = [\<lparr>pt_x = 1439 / 8, pt_y = 1 / 2\<rparr>, \<lparr>pt_x = - (1437 / 8), pt_y = 0\<rparr>,
                 \<lparr>pt_x = 1439 / 8, pt_y = - (1 / 2)\<rparr>, \<lparr>pt_x = 1435 / 8, pt_y = 0\<rparr>,
                 \<lparr>pt_x = 1439 / 8, pt_y = 1 / 2\<rparr>]" by simp
  have c: "hasIdlCrossing gen_out" by (simp add: gen fl_eval)
  from 8 have t: "pts_in = norm_in" "pts_out = norm_out" by (simp_all add: demo_self_def)
  from 5 c have n: "norm_in = map shift_positive gen_in" "norm_out = map shift_positive gen_out" by simp_all
  from 9 have "PolygonXY
          [[\<lparr>pt_x = 1439 / 8, pt_y = 1 / 2\<rparr>, \<lparr>pt_x = 1443 / 8, pt_y = 0\<rparr>,
            \<lparr>pt_x = 1439 / 8, pt_y = - (1 / 2)\<rparr>, \<lparr>pt_x = 1435 / 8, pt_y = 0\<rparr>,
            \<lparr>pt_x = 1439 / 8, pt_y = 1 / 2\<rparr>],
           [\<lparr>pt_x = 1439 / 8, pt_y = 1 / 4\<rparr>, \<lparr>pt_x = 1441 / 8, pt_y = 0\<rparr>,
            \<lparr>pt_x = 1439 / 8, pt_y = - (1 / 4)\<rparr>, \<lparr>pt_x = 1437 / 8, pt_y = 0\<rparr>,
            \<lparr>pt_x = 1439 / 8, pt_y = 1 / 4\<rparr>]]
        = PolygonXY [map shift_positive gen_out, map shift_positive gen_in]"
    by (simp add: demo_self_def t n)
  with g c show ?thesis by (intro exI conjI)
qed

text \<open>
  Claim C2 as stated (whenever either ring crosses, both are normalised) fails: the demo
  feature with an inner radius of 50 km and an outer radius of 17950 km has an inner ring
  that crosses the antimeridian and an outer ring, half a world away, that does not.  The
  feature is emitted with the inner ring as generated, one longitude at -179.625 among
  longitudes near +180.
\<close>

theorem inner_crossing_alone_not_normalized:
  "generate_rings sphere_Direct 0 (1439 / 8) 50000 17950000 90 =
     Some (Inr ([\<lparr>pt_x = 1439 / 8, pt_y = 1 / 2\<rparr>, \<lparr>pt_x = - (1437 / 8), pt_y = 0\<rparr>,
                 \<lparr>pt_x = 1439 / 8, pt_y = - (1 / 2)\<rparr>, \<lparr>pt_x = 1435 / 8, pt_y = 0\<rparr>,
                 \<lparr>pt_x = 1439 / 8, pt_y = 1 / 2\<rparr>],
                [\<lparr>pt_x = - (1 / 8), pt_y = 1 / 2\<rparr>, \<lparr>pt_x = - (5 / 8), pt_y = 0\<rparr>,
                 \<lparr>pt_x = - (1 / 8), pt_y = - (1 / 2)\<rparr>, \<lparr>pt_x = 3 / 8, pt_y = 0\<rparr>,
                 \<lparr>pt_x = - (1 / 8), pt_y = 1 / 2\<rparr>]))
   \<and> hasIdlCrossing [\<lparr>pt_x = 1439 / 8, pt_y = 1 / 2\<rparr>, \<lparr>pt_x = - (1437 / 8), pt_y = 0\<rparr>,
                 \<lparr>pt_x = 1439 / 8, pt_y = - (1 / 2)\<rparr>, \<lparr>pt_x = 1435 / 8, pt_y = 0\<rparr>,
                 \<lparr>pt_x = 1439 / 8, pt_y = 1 / 2\<rparr>]
   \<and> processFeature demo_env (demo_self 17950 50) demo_feature \<lparr>expressionContext = demo_feature\<rparr> =
       Some ([demo_feature\<lparr>geometry := PolygonXY
                [[\<lparr>pt_x = - (1 / 8), pt_y = 1 / 2\<rparr>, \<lparr>pt_x = - (5 / 8), pt_y = 0\<rparr>,
                  \<lparr>pt_x = - (1 / 8), pt_y = - (1 / 2)\<rparr>, \<lparr>pt_x = 3 / 8, pt_y = 0\<rparr>,
                  \<lparr>pt_x = - (1 / 8), pt_y = 1 / 2\<rparr>],
                 [\<lparr>pt_x = 1439 / 8, pt_y = 1 / 2\<rparr>, \<lparr>pt_x = - (1437 / 8), pt_y = 0\<rparr>,
                  \<lparr>pt_x = 1439 / 8, pt_y = - (1 / 2)\<rparr>, \<lparr>pt_x = 1435 / 8, pt_y = 0\<rparr>,
                  \<lparr>pt_x = 1439 / 8, pt_y = 1 / 2\<rparr>]]\<rparr>],
             demo_self 17950 50)"
  by (simp add: process_eval demo_eval fl_eval)


section \<open>The end of a run\<close>

text \<open>\<open>processFeature\<close> returns one feature and leaves the object alone, or returns none
  and adds one to the counter; so over a whole layer the counter is the number of
  features that gave no output, and nothing else of the object changes.\<close>

lemma processFeature_cases:
  assumes "processFeature ev self feature ctx = Some (out, self')"
  shows "(\<exists>f. out = [f] \<and> self' = self) \<or> (out = [] \<and> self' = self\<lparr>num_bad := num_bad self + 1\<rparr>)"
  using assms by (auto simp: processFeature_def split: option.splits outcome.splits)

lemma process_all_count:
  assumes "process_all ev self features = Some (outs, self')"
  shows "num_bad self' + length outs = num_bad self + length features
         \<and> self' = self\<lparr>num_bad := num_bad self'\<rparr>"
  using assms
proof (induction features arbitrary: self outs self')
  case Nil
  then show ?case by simp
next
  case (Cons fc rest)
  obtain feature ctx where fc: "fc = (feature, ctx)" by (cases fc)
  from Cons.prems fc obtain out s1 outs1 where
    p: "processFeature ev self feature ctx = Some (out, s1)" and
    r: "process_all ev s1 rest = Some (outs1, self')" and
    o: "outs = out @ outs1"
    by (auto split: option.splits)
  from Cons.IH [OF r] have ih: "num_bad self' + length outs1 = num_bad s1 + length rest"
    and same: "self' = s1\<lparr>num_bad := num_bad self'\<rparr>" by simp_all
  from processFeature_cases [OF p] show ?case
  proof
    assume "\<exists>f. out = [f] \<and> s1 = self"
    then show ?thesis using ih same o by auto
  next
    assume a: "out = [] \<and> s1 = self\<lparr>num_bad := num_bad self + 1\<rparr>"
    then have "self' = self\<lparr>num_bad := num_bad self'\<rparr>" using same by (subst same) simp
    then show ?thesis using ih a o by simp
  qed
qed

lemma prepareAlgorithm_True:
  assumes "prepareAlgorithm ev self0 prm feedback = Inr (True, self, feedback')"
  shows "num_bad self = 0 \<and> total_features self = INPUT_featureCount prm \<and> feedback' = feedback"
  using assms
  by (auto simp: prepareAlgorithm_def Let_def split: if_splits sum.splits)

text \<open>
  Claim C8, as the code has it: at the end of a completed run in which at least one
  feature was skipped, the feedback holds one message with the number of skipped features
  out of the feature count of the source; when no feature was skipped, it holds nothing.
\<close>

theorem bad_count_reported_when_nonzero:
  assumes "run ev prm features = Some (Completed outs feedback)"
  shows "length outs \<le> length features
         \<and> feedback =
             (if length outs = length features then []
              else [pushInfo (str_nat (length features - length outs) @ '' out of ''
                              @ str_int (INPUT_featureCount prm)
                              @ '' features had invalid parameters and were ignored.'')])"
proof -
  from assms obtain self fb self' where
    prep: "prepareAlgorithm ev initParameters prm [] = Inr (True, self, fb)" and
    all: "process_all ev self features = Some (outs, self')" and
    post: "feedback = postProcessAlgorithm self' fb"
    by (auto simp: run_def split: sum.splits if_splits option.splits)
  from prepareAlgorithm_True [OF prep]
  have s: "num_bad self = 0" "total_features self = INPUT_featureCount prm" "fb = []" by simp_all
  from process_all_count [OF all]
  have c: "num_bad self' + length outs = length features"
    and t: "self' = self\<lparr>num_bad := num_bad self'\<rparr>" using s by simp_all
  have tf: "total_features self' = INPUT_featureCount prm" using s(2) by (subst t) simp
  have nb: "num_bad self' = length features - length outs" using c by simp
  show ?thesis using c nb tf post s(3) by (auto simp: postProcessAlgorithm_def)
qed

text \<open>\<open>prepareAlgorithm\<close> on the demo parameters, for a layer of \<open>n\<close> features.\<close>

lemma demo_prepare:
  "prepareAlgorithm demo_env initParameters ((demo_parameters outer inner)\<lparr>INPUT_featureCount := n\<rparr>) [] =
     (if outer \<le> 0
      then Inr (False, initParameters\<lparr>shape_type := 0, outer_radius := outer\<rparr>,
                [reportError ''Outer radius parameter must be greater than 0''])
      else Inr (True, (demo_self outer inner)\<lparr>total_features := n\<rparr>, []))"
  by (simp add: prepareAlgorithm_def demo_parameters_def demo_env_def demo_self_def
      initParameters_def pt_spacing_of_def epsg4326_def fl_quarters Let_def)

text \<open>A layer of two features, the first one off the equator, where the demo solver
  raises: the second feature is emitted and the summary counts 1 out of 2.\<close>

lemma demo_run_two:
  "\<exists>feedback.
     run demo_env ((demo_parameters 50 0)\<lparr>INPUT_featureCount := 2\<rparr>)
       [(\<lparr>geometry = PointGeometry \<lparr>pt_x = 10, pt_y = 20\<rparr>, attributes = []\<rparr>,
         \<lparr>expressionContext = demo_feature\<rparr>),
        (demo_feature, \<lparr>expressionContext = demo_feature\<rparr>)]
     = Some (Completed
         [demo_feature\<lparr>geometry :=
              PolygonXY [[\<lparr>pt_x = 1439 / 8, pt_y = 1 / 2\<rparr>, \<lparr>pt_x = 1443 / 8, pt_y = 0\<rparr>,
                          \<lparr>pt_x = 1439 / 8, pt_y = - (1 / 2)\<rparr>, \<lparr>pt_x = 1435 / 8, pt_y = 0\<rparr>,
                          \<lparr>pt_x = 1439 / 8, pt_y = 1 / 2\<rparr>]]\<rparr>]
         feedback)"
proof -
  have prep: "prepareAlgorithm demo_env initParameters
                ((demo_parameters 50 0)\<lparr>INPUT_featureCount := 2\<rparr>) []
              = Inr (True, (demo_self 50 0)\<lparr>total_features := 2\<rparr>, [])"
    by (simp add: demo_prepare)
  have p1: "processFeature demo_env ((demo_self 50 0)\<lparr>total_features := 2\<rparr>)
              \<lparr>geometry = PointGeometry \<lparr>pt_x = 10, pt_y = 20\<rparr>, attributes = []\<rparr>
              \<lparr>expressionContext = demo_feature\<rparr>
            = Some ([], (demo_self 50 0)\<lparr>total_features := 2, num_bad := Suc 0\<rparr>)"
    by (simp add: process_eval demo_eval fl_eval)
  have p2: "processFeature demo_env ((demo_self 50 0)\<lparr>total_features := 2, num_bad := Suc 0\<rparr>)
              demo_feature \<lparr>expressionContext = demo_feature\<rparr>
            = Some ([demo_feature\<lparr>geometry :=
                PolygonXY [[\<lparr>pt_x = 1439 / 8, pt_y = 1 / 2\<rparr>, \<lparr>pt_x = 1443 / 8, pt_y = 0\<rparr>,
                            \<lparr>pt_x = 1439 / 8, pt_y = - (1 / 2)\<rparr>, \<lparr>pt_x = 1435 / 8, pt_y = 0\<rparr>,
                            \<lparr>pt_x = 1439 / 8, pt_y = 1 / 2\<rparr>]]\<rparr>],
                    (demo_self 50 0)\<lparr>total_features := 2, num_bad := Suc 0\<rparr>)"
    by (simp add: process_eval demo_eval fl_eval)
  show ?thesis by (simp add: run_def prep p1 p2)
qed

theorem bad_count_reported_when_nonzero_witness:
  "run demo_env ((demo_parameters 50 0)\<lparr>INPUT_featureCount := 2\<rparr>)
       [(\<lparr>geometry = PointGeometry \<lparr>pt_x = 10, pt_y = 20\<rparr>, attributes = []\<rparr>,
         \<lparr>expressionContext = demo_feature\<rparr>),
        (demo_feature, \<lparr>expressionContext = demo_feature\<rparr>)]
     = Some (Completed
         [demo_feature\<lparr>geometry :=
              PolygonXY [[\<lparr>pt_x = 1439 / 8, pt_y = 1 / 2\<rparr>, \<lparr>pt_x = 1443 / 8, pt_y = 0\<rparr>,
                          \<lparr>pt_x = 1439 / 8, pt_y = - (1 / 2)\<rparr>, \<lparr>pt_x = 1435 / 8, pt_y = 0\<rparr>,
                          \<lparr>pt_x = 1439 / 8, pt_y = 1 / 2\<rparr>]]\<rparr>]
         [pushInfo ''1 out of 2 features had invalid parameters and were ignored.''])"
proof -
  from demo_run_two obtain feedback where
    r: "run demo_env ((demo_parameters 50 0)\<lparr>INPUT_featureCount := 2\<rparr>)
       [(\<lparr>geometry = PointGeometry \<lparr>pt_x = 10, pt_y = 20\<rparr>, attributes = []\<rparr>,
         \<lparr>expressionContext = demo_feature\<rparr>),
        (demo_feature, \<lparr>expressionContext = demo_feature\<rparr>)]
     = Some (Completed
         [demo_feature\<lparr>geometry :=
              PolygonXY [[\<lparr>pt_x = 1439 / 8, pt_y = 1 / 2\<rparr>, \<lparr>pt_x = 1443 / 8, pt_y = 0\<rparr>,
                          \<lparr>pt_x = 1439 / 8, pt_y = - (1 / 2)\<rparr>, \<lparr>pt_x = 1435 / 8, pt_y = 0\<rparr>,
                          \<lparr>pt_x = 1439 / 8, pt_y = 1 / 2\<rparr>]]\<rparr>]
         feedback)" by (elim exE)
  from bad_count_reported_when_nonzero [OF r]
  have "feedback = [pushInfo ''1 out of 2 features had invalid parameters and were ignored.'']"
    by (simp add: demo_parameters_def str_int_def)
  with r show ?thesis by simp
qed

text \<open>
  Claim C8 as stated (the count is reported at the end of every run) fails: a run over one
  good feature ends with no message at all, because \<open>postProcessAlgorithm\<close> writes only
  when the counter is not 0.
\<close>

theorem no_bad_feature_no_summary:
  "map_option summary
     (run demo_env ((demo_parameters 50 0)\<lparr>INPUT_featureCount := 1\<rparr>)
        [(demo_feature, \<lparr>expressionContext = demo_feature\<rparr>)])
   = Some []"
proof -
  have prep: "prepareAlgorithm demo_env initParameters
                ((demo_parameters 50 0)\<lparr>INPUT_featureCount := 1\<rparr>) []
              = Inr (True, (demo_self 50 0)\<lparr>total_features := 1\<rparr>, [])"
    by (simp add: demo_prepare)
  have p: "processFeature demo_env ((demo_self 50 0)\<lparr>total_features := 1\<rparr>)
              demo_feature \<lparr>expressionContext = demo_feature\<rparr>
            = Some ([demo_feature\<lparr>geometry :=
                PolygonXY [[\<lparr>pt_x = 1439 / 8, pt_y = 1 / 2\<rparr>, \<lparr>pt_x = 1443 / 8, pt_y = 0\<rparr>,
                            \<lparr>pt_x = 1439 / 8, pt_y = - (1 / 2)\<rparr>, \<lparr>pt_x = 1435 / 8, pt_y = 0\<rparr>,
                            \<lparr>pt_x = 1439 / 8, pt_y = 1 / 2\<rparr>]]\<rparr>],
                    (demo_self 50 0)\<lparr>total_features := 1\<rparr>)"
    by (simp add: process_eval demo_eval fl_eval)
  show ?thesis by (simp add: run_def prep p postProcessAlgorithm_def demo_self_num_bad)
qed


section \<open>A source layer in EPSG:4326\<close>

text \<open>For a source layer in EPSG:4326 \<open>prepareAlgorithm\<close> builds no transform, and the
  constructor of transforms is not even called: nothing depends on it.\<close>

lemma prepareAlgorithm_geographic:
  assumes "INPUT_sourceCrs prm = epsg4326"
    and "prepareAlgorithm ev self0 prm feedback = Inr (True, self, feedback')"
  shows "geom_to_4326 self = None \<and> to_sink_crs self = None"
  using assms
  by (auto simp: prepareAlgorithm_def Let_def split: if_splits sum.splits)

lemma prepareAlgorithm_no_constructor:
  assumes "INPUT_sourceCrs prm = epsg4326"
  shows "prepareAlgorithm (ev\<lparr>QgsCoordinateTransform := T\<rparr>) self0 prm feedback
         = prepareAlgorithm ev self0 prm feedback"
  using assms
  by (cases "pt_spacing_of (DrawingSegments prm)") (simp_all add: prepareAlgorithm_def Let_def)

lemma try_body_no_constructor:
  "try_body (ev\<lparr>QgsCoordinateTransform := T\<rparr>) self feature ctx = try_body ev self feature ctx"
proof -
  have g: "geod_Direct (ev\<lparr>QgsCoordinateTransform := T\<rparr>) = geod_Direct ev" by simp
  show ?thesis unfolding try_body_def g ..
qed

lemma process_all_no_constructor:
  "process_all (ev\<lparr>QgsCoordinateTransform := T\<rparr>) self features = process_all ev self features"
  by (induction features arbitrary: self)
     (auto simp: processFeature_def try_body_no_constructor split: option.splits)

lemma to_4326_None:
  assumes "geom_to_4326 self = None"
  shows "to_4326 self pt = Inr pt"
  using assms by (simp add: to_4326_def)

text \<open>
  Claim C6: when the source layer is already in EPSG:4326, neither transform exists, so
  for every feature that is emitted the centre handed to the solver is the feature's own
  point and the rings of the geometry are the generated rings (after the antimeridian
  step) as they are; the whole run is the same whatever the transform constructor
  would do.
\<close>

theorem geographic_source_skips_transforms:
  assumes "INPUT_sourceCrs prm = epsg4326"
    and "prepareAlgorithm ev self0 prm feedback = Inr (True, self, feedback')"
  shows "geom_to_4326 self = None \<and> to_sink_crs self = None
         \<and> (processFeature ev self feature ctx = Some ([f], self') \<longrightarrow>
              (\<exists>pt inner_rad outer_rad rings.
                 asPoint (geometry feature) = Inr pt
                 \<and> resolve_inner self ctx = Inr (Some inner_rad)
                 \<and> resolve_outer self ctx = Inr (Some outer_rad)
                 \<and> generate_rings (geod_Direct ev) (pt_y pt) (pt_x pt) inner_rad outer_rad
                      (pt_spacing self) = Some (Inr rings)
                 \<and> geometry f = build_geometry (shape_type self) inner_rad
                                  (fst (normalize_rings inner_rad rings))
                                  (snd (normalize_rings inner_rad rings))))
         \<and> run (ev\<lparr>QgsCoordinateTransform := T\<rparr>) prm features = run ev prm features"
proof -
  from prepareAlgorithm_geographic [OF assms]
  have g: "geom_to_4326 self = None" and s: "to_sink_crs self = None" by simp_all
  have emitted: "\<exists>pt inner_rad outer_rad rings.
                 asPoint (geometry feature) = Inr pt
                 \<and> resolve_inner self ctx = Inr (Some inner_rad)
                 \<and> resolve_outer self ctx = Inr (Some outer_rad)
                 \<and> generate_rings (geod_Direct ev) (pt_y pt) (pt_x pt) inner_rad outer_rad
                      (pt_spacing self) = Some (Inr rings)
                 \<and> geometry f = build_geometry (shape_type self) inner_rad
                                  (fst (normalize_rings inner_rad rings))
                                  (snd (normalize_rings inner_rad rings))"
    if p: "processFeature ev self feature ctx = Some ([f], self')"
  proof -
    from p have "try_body ev self feature ctx = Some (Emitted f)"
      by (simp add: processFeature_Emitted)
    from try_body_Emitted [OF this] obtain pt0 pt r outer_rad rings pts_in pts_out where
      H: "asPoint (geometry feature) = Inr pt0 \<and> to_4326 self pt0 = Inr pt
           \<and> resolve_inner self ctx = Inr (Some r)
           \<and> resolve_outer self ctx = Inr (Some outer_rad)
           \<and> generate_rings (geod_Direct ev) (pt_y pt) (pt_x pt) r outer_rad
                (pt_spacing self) = Some (Inr rings)
           \<and> transform_rings self r (normalize_rings r rings) = Inr (pts_in, pts_out)
           \<and> f = export_attrs self (pt_x pt0) (pt_y pt0)
                   (feature\<lparr>geometry := build_geometry (shape_type self) r pts_in pts_out\<rparr>)"
      by (elim exE)
    from H have pt: "pt = pt0" by (simp add: to_4326_None [OF g])
    from H have n: "normalize_rings r rings = (pts_in, pts_out)"
      by (simp add: transform_rings_None [OF s])
    have 1: "asPoint (geometry feature) = Inr pt" using H pt by simp
    have 2: "resolve_inner self ctx = Inr (Some r)" using H by simp
    have 3: "resolve_outer self ctx = Inr (Some outer_rad)" using H by simp
    have 4: "generate_rings (geod_Direct ev) (pt_y pt) (pt_x pt) r outer_rad
                (pt_spacing self) = Some (Inr rings)" using H by simp
    have 5: "geometry f = build_geometry (shape_type self) r
                            (fst (normalize_rings r rings)) (snd (normalize_rings r rings))"
      using H n by (simp add: export_attrs_def)
    from 1 2 3 4 5 show ?thesis by (intro exI conjI)
  qed
  have "run (ev\<lparr>QgsCoordinateTransform := T\<rparr>) prm features = run ev prm features"
    unfolding run_def prepareAlgorithm_no_constructor [OF assms(1)] process_all_no_constructor ..
  with g s emitted show ?thesis by blast
qed

text \<open>The demo run: the layer is in EPSG:4326 and every transform of the demo environment
  raises, yet the feature is emitted with the rings as generated and normalised.\<close>

lemma demo_prepare_donut:
  "prepareAlgorithm demo_env initParameters (demo_parameters 50 25) [] = Inr (True, demo_self 50 25, [])"
  by (simp add: prepareAlgorithm_def demo_parameters_def demo_env_def demo_self_def
      initParameters_def pt_spacing_of_def epsg4326_def fl_quarters Let_def)

theorem geographic_source_skips_transforms_witness:
  "\<exists>rings.
     generate_rings sphere_Direct 0 (1439 / 8) 25000 50000 90 = Some (Inr rings)
     \<and> PolygonXY
          [[\<lparr>pt_x = 1439 / 8, pt_y = 1 / 2\<rparr>, \<lparr>pt_x = 1443 / 8, pt_y = 0\<rparr>,
            \<lparr>pt_x = 1439 / 8, pt_y = - (1 / 2)\<rparr>, \<lparr>pt_x = 1435 / 8, pt_y = 0\<rparr>,
            \<lparr>pt_x = 1439 / 8, pt_y = 1 / 2\<rparr>],
           [\<lparr>pt_x = 1439 / 8, pt_y = 1 / 4\<rparr>, \<lparr>pt_x = 1441 / 8, pt_y = 0\<rparr>,
            \<lparr>pt_x = 1439 / 8, pt_y = - (1 / 4)\<rparr>, \<lparr>pt_x = 1437 / 8, pt_y = 0\<rparr>,
            \<lparr>pt_x = 1439 / 8, pt_y = 1 / 4\<rparr>]]
        = PolygonXY [snd (normalize_rings 25000 rings), fst (normalize_rings 25000 rings)]"
proof -
  have crs: "INPUT_sourceCrs (demo_parameters 50 25) = epsg4326"
    by (simp add: demo_parameters_def epsg4326_def)
  note w = geographic_source_skips_transforms [OF crs demo_prepare_donut,
      THEN conjunct2, THEN conjunct2, THEN conjunct1, rule_format, OF demo_process_donut]
  then obtain pt inner_rad outer_rad rings where
    1: "asPoint (geometry demo_feature) = Inr pt" and
    2: "resolve_inner (demo_self 50 25) \<lparr>expressionContext = demo_feature\<rparr> = Inr (Some inner_rad)" and
    3: "resolve_outer (demo_self 50 25) \<lparr>expressionContext = demo_feature\<rparr> = Inr (Some outer_rad)" and
    4: "generate_rings (geod_Direct demo_env) (pt_y pt) (pt_x pt) inner_rad outer_rad
          (pt_spacing (demo_self 50 25)) = Some (Inr rings)" and
    5: "geometry (demo_feature\<lparr>geometry := PolygonXY
              [[\<lparr>pt_x = 1439 / 8, pt_y = 1 / 2\<rparr>, \<lparr>pt_x = 1443 / 8, pt_y = 0\<rparr>,
                \<lparr>pt_x = 1439 / 8, pt_y = - (1 / 2)\<rparr>, \<lparr>pt_x = 1435 / 8, pt_y = 0\<rparr>,
                \<lparr>pt_x = 1439 / 8, pt_y = 1 / 2\<rparr>],
               [\<lparr>pt_x = 1439 / 8, pt_y = 1 / 4\<rparr>, \<lparr>pt_x = 1441 / 8, pt_y = 0\<rparr>,
                \<lparr>pt_x = 1439 / 8, pt_y = - (1 / 4)\<rparr>, \<lparr>pt_x = 1437 / 8, pt_y = 0\<rparr>,
                \<lparr>pt_x = 1439 / 8, pt_y = 1 / 4\<rparr>]]\<rparr>)
         = build_geometry (shape_type (demo_self 50 25)) inner_rad
             (fst (normalize_rings inner_rad rings)) (snd (normalize_rings inner_rad rings))"
    by (elim exE conjE)
  from 1 have pt: "pt = \<lparr>pt_x = 1439 / 8, pt_y = 0\<rparr>" by (simp add: demo_feature_def)
  from 2 have i: "inner_rad = 25000" by (simp add: resolve_inner_def demo_self_def fl_thousands)
  from 3 have o: "outer_rad = 50000" by (simp add: resolve_outer_def demo_self_def fl_thousands)
  from 4 have g: "generate_rings sphere_Direct 0 (1439 / 8) 25000 50000 90 = Some (Inr rings)"
    by (simp add: pt i o demo_env_def demo_self_def)
  from 5 have "PolygonXY
          [[\<lparr>pt_x = 1439 / 8, pt_y = 1 / 2\<rparr>, \<lparr>pt_x = 1443 / 8, pt_y = 0\<rparr>,
            \<lparr>pt_x = 1439 / 8, pt_y = - (1 / 2)\<rparr>, \<lparr>pt_x = 1435 / 8, pt_y = 0\<rparr>,
            \<lparr>pt_x = 1439 / 8, pt_y = 1 / 2\<rparr>],
           [\<lparr>pt_x = 1439 / 8, pt_y = 1 / 4\<rparr>, \<lparr>pt_x = 1441 / 8, pt_y = 0\<rparr>,
            \<lparr>pt_x = 1439 / 8, pt_y = - (1 / 4)\<rparr>, \<lparr>pt_x = 1437 / 8, pt_y = 0\<rparr>,
            \<lparr>pt_x = 1439 / 8, pt_y = 1 / 4\<rparr>]]
        = PolygonXY [snd (normalize_rings 25000 rings), fst (normalize_rings 25000 rings)]"
    by (simp add: i build_geometry_def demo_self_def)
  with g show ?thesis by (intro exI conjI)
qed


section \<open>A negative inner radius\<close>

text \<open>When every step of the body succeeds, the feature is emitted; and every point of a
  generated inner ring is a point the solver returned for the inner radius.\<close>

lemma try_body_emits:
  assumes "asPoint (geometry feature) = Inr pt0" and "to_4326 self pt0 = Inr pt"
    and "resolve_inner self ctx = Inr (Some inner_rad)"
    and "resolve_outer self ctx = Inr (Some outer_rad)"
    and "generate_rings (geod_Direct ev) (pt_y pt) (pt_x pt) inner_rad outer_rad (pt_spacing self)
           = Some (Inr rings)"
    and "transform_rings self inner_rad (normalize_rings inner_rad rings) = Inr (pts_in, pts_out)"
  shows "try_body ev self feature ctx =
           Some (Emitted (export_attrs self (pt_x pt0) (pt_y pt0)
                   (feature\<lparr>geometry := build_geometry (shape_type self) inner_rad pts_in pts_out\<rparr>)))"
  using assms by (simp add: try_body_def)

lemma inner_ring_traced:
  assumes "generate_rings Direct lat lon inner_rad outer_rad spacing = Some (Inr (pts_in, pts_out))"
    and "inner_rad \<noteq> 0" and "p \<in> set pts_in"
  shows "\<exists>angle g. Direct lat lon angle inner_rad = Inr g \<and> p = mk_point g"
proof -
  from generate_rings_pairs [OF assms(1,2)]
  have l: "list_all2 (same_azimuth Direct lat lon inner_rad outer_rad) pts_in pts_out" by simp
  from assms(3) obtain i where i: "i < length pts_in" "pts_in ! i = p"
    by (auto simp: in_set_conv_nth)
  from l i have "same_azimuth Direct lat lon inner_rad outer_rad p (pts_out ! i)"
    by (auto simp: list_all2_conv_all_nth)
  then show ?thesis unfolding same_azimuth_def by blast
qed

text \<open>
  Claim C9: a dynamic inner radius that resolves to a strictly negative number is not
  rejected.  The inner-radius block skips the feature exactly when the expression fails
  to evaluate; with a negative value \<open>r\<close> (in metres) and the remaining steps succeeding,
  the feature is emitted with both rings, the inner ring being traced by the solver with
  the negative distance \<open>r\<close>.  The outer radius is treated differently: a dynamic outer
  radius that resolves to 0 or less drops the feature.
\<close>

theorem negative_inner_radius_is_processed:
  assumes "inner_radius_dyn self" and "inner_radius_property self = Some prop"
    and "prop (expressionContext ctx) (inner_radius self) = Inr (v, e)"
    and "r = fl (v * measure_factor self)"
  shows "((resolve_inner self ctx = Inr None) = (\<not> e))
         \<and> (e \<longrightarrow> r < 0 \<longrightarrow>
              asPoint (geometry feature) = Inr pt0 \<longrightarrow> to_4326 self pt0 = Inr pt \<longrightarrow>
              resolve_outer self ctx = Inr (Some outer_rad) \<longrightarrow>
              generate_rings (geod_Direct ev) (pt_y pt) (pt_x pt) r outer_rad (pt_spacing self)
                = Some (Inr (gen_in, gen_out)) \<longrightarrow>
              transform_rings self r (normalize_rings r (gen_in, gen_out)) = Inr (pts_in, pts_out) \<longrightarrow>
                processFeature ev self feature ctx =
                  Some ([export_attrs self (pt_x pt0) (pt_y pt0)
                           (feature\<lparr>geometry :=
                              (if shape_type self = 0 then PolygonXY [pts_out, pts_in]
                               else MultiPolylineXY [pts_out, pts_in])\<rparr>)], self)
                \<and> gen_in \<noteq> []
                \<and> (\<forall>p \<in> set gen_in.
                      \<exists>angle g. geod_Direct ev (pt_y pt) (pt_x pt) angle r = Inr g \<and> p = mk_point g))
         \<and> (outer_radius_dyn self \<longrightarrow> outer_radius_property self = Some prop_out \<longrightarrow>
              prop_out (expressionContext ctx) (outer_radius self) = Inr (v_out, True) \<longrightarrow>
              fl (v_out * measure_factor self) \<le> 0 \<longrightarrow>
                processFeature ev self feature ctx = Some ([], self\<lparr>num_bad := num_bad self + 1\<rparr>))"
proof -
  have skip: "(resolve_inner self ctx = Inr None) = (\<not> e)"
    using assms(1-3) by (simp add: resolve_inner_def)
  have emitted: "processFeature ev self feature ctx =
                  Some ([export_attrs self (pt_x pt0) (pt_y pt0)
                           (feature\<lparr>geometry :=
                              (if shape_type self = 0 then PolygonXY [pts_out, pts_in]
                               else MultiPolylineXY [pts_out, pts_in])\<rparr>)], self)
                \<and> gen_in \<noteq> []
                \<and> (\<forall>p \<in> set gen_in.
                      \<exists>angle g. geod_Direct ev (pt_y pt) (pt_x pt) angle r = Inr g \<and> p = mk_point g)"
    if e: e and neg: "r < 0"
      and a: "asPoint (geometry feature) = Inr pt0" and t: "to_4326 self pt0 = Inr pt"
      and o: "resolve_outer self ctx = Inr (Some outer_rad)"
      and g: "generate_rings (geod_Direct ev) (pt_y pt) (pt_x pt) r outer_rad (pt_spacing self)
                = Some (Inr (gen_in, gen_out))"
      and tr: "transform_rings self r (normalize_rings r (gen_in, gen_out)) = Inr (pts_in, pts_out)"
  proof -
    have nz: "r \<noteq> 0" using neg by simp
    have ri: "resolve_inner self ctx = Inr (Some r)"
      using assms e by (simp add: resolve_inner_def)
    from try_body_emits [OF a t ri o g tr]
    have "processFeature ev self feature ctx =
            Some ([export_attrs self (pt_x pt0) (pt_y pt0)
                    (feature\<lparr>geometry := build_geometry (shape_type self) r pts_in pts_out\<rparr>)], self)"
      by (simp add: processFeature_def)
    then have 1: "processFeature ev self feature ctx =
                  Some ([export_attrs self (pt_x pt0) (pt_y pt0)
                           (feature\<lparr>geometry :=
                              (if shape_type self = 0 then PolygonXY [pts_out, pts_in]
                               else MultiPolylineXY [pts_out, pts_in])\<rparr>)], self)"
      using nz by (simp add: build_geometry_def)
    have 2: "gen_in \<noteq> []" using generate_rings_pairs [OF g nz] by simp
    have 3: "\<forall>p \<in> set gen_in.
               \<exists>angle g. geod_Direct ev (pt_y pt) (pt_x pt) angle r = Inr g \<and> p = mk_point g"
      using inner_ring_traced [OF g nz] by blast
    from 1 2 3 show ?thesis by (intro conjI)
  qed
  have rejected: "processFeature ev self feature ctx = Some ([], self\<lparr>num_bad := num_bad self + 1\<rparr>)"
    if "outer_radius_dyn self" "outer_radius_property self = Some prop_out"
      "prop_out (expressionContext ctx) (outer_radius self) = Inr (v_out, True)"
      "fl (v_out * measure_factor self) \<le> 0"
  proof -
    from that(4) have "\<not> True \<or> fl (v_out * measure_factor self) \<le> 0" by simp
    from resolve_outer_failure [OF that(1,2,3) this]
    have "resolve_outer self ctx = Inr None" .
    from try_body_outer_None [OF this]
    obtain x where "try_body ev self feature ctx = Some x" "\<forall>f. x \<noteq> Emitted f" by blast
    then show ?thesis by (rule processFeature_dropped)
  qed
  from skip emitted rejected show ?thesis by blast
qed

text \<open>The demo feature with -25 in its first attribute and an outer radius of 50 km: the
  inner ring is traced backwards (its first point lies south of the centre) and the
  feature is emitted with it.\<close>

lemma demo_rings_negative:
  "generate_rings sphere_Direct 0 (1439 / 8) (- 25000) 50000 90 =
     Some (Inr ([\<lparr>pt_x = 1439 / 8, pt_y = - (1 / 4)\<rparr>, \<lparr>pt_x = 1437 / 8, pt_y = 0\<rparr>,
                 \<lparr>pt_x = 1439 / 8, pt_y = 1 / 4\<rparr>, \<lparr>pt_x = - (1439 / 8), pt_y = 0\<rparr>,
                 \<lparr>pt_x = 1439 / 8, pt_y = - (1 / 4)\<rparr>],
                [\<lparr>pt_x = 1439 / 8, pt_y = 1 / 2\<rparr>, \<lparr>pt_x = - (1437 / 8), pt_y = 0\<rparr>,
                 \<lparr>pt_x = 1439 / 8, pt_y = - (1 / 2)\<rparr>, \<lparr>pt_x = 1435 / 8, pt_y = 0\<rparr>,
                 \<lparr>pt_x = 1439 / 8, pt_y = 1 / 2\<rparr>]))"
  by (simp add: demo_eval)

theorem negative_inner_radius_is_processed_witness:
  "processFeature demo_env (demo_self_dyn 50) demo_feature_neg \<lparr>expressionContext = demo_feature_neg\<rparr>
   = Some ([demo_feature_neg\<lparr>geometry := PolygonXY
              [[\<lparr>pt_x = 1439 / 8, pt_y = 1 / 2\<rparr>, \<lparr>pt_x = 1443 / 8, pt_y = 0\<rparr>,
                \<lparr>pt_x = 1439 / 8, pt_y = - (1 / 2)\<rparr>, \<lparr>pt_x = 1435 / 8, pt_y = 0\<rparr>,
                \<lparr>pt_x = 1439 / 8, pt_y = 1 / 2\<rparr>],
               [\<lparr>pt_x = 1439 / 8, pt_y = - (1 / 4)\<rparr>, \<lparr>pt_x = 1437 / 8, pt_y = 0\<rparr>,
                \<lparr>pt_x = 1439 / 8, pt_y = 1 / 4\<rparr>, \<lparr>pt_x = 1441 / 8, pt_y = 0\<rparr>,
                \<lparr>pt_x = 1439 / 8, pt_y = - (1 / 4)\<rparr>]]\<rparr>],
           demo_self_dyn 50)"
proof -
  let ?self = "demo_self_dyn 50"
  let ?ctx = "\<lparr>expressionContext = demo_feature_neg\<rparr>"
  let ?pt = "\<lparr>pt_x = 1439 / 8, pt_y = 0\<rparr>"
  have h1: "inner_radius_dyn ?self" by (simp add: demo_self_dyn_def)
  have h2: "inner_radius_property ?self = Some first_attribute" by (simp add: demo_self_dyn_def)
  have h3: "first_attribute (expressionContext ?ctx) (inner_radius ?self) = Inr (- 25, True)"
    by (simp add: first_attribute_def demo_feature_neg_def)
  have h4: "- 25000 = fl (- 25 * measure_factor ?self)"
    by (simp add: demo_self_dyn_def demo_self_def fl_thousands)
  have neg: "(- 25000 :: real) < 0" by simp
  have a: "asPoint (geometry demo_feature_neg) = Inr ?pt"
    by (simp add: demo_feature_neg_def demo_feature_def)
  have t: "to_4326 ?self ?pt = Inr ?pt" by (simp add: to_4326_def demo_self_dyn_def demo_self_def)
  have o: "resolve_outer ?self ?ctx = Inr (Some 50000)"
    by (simp add: resolve_outer_def demo_self_dyn_def demo_self_def fl_thousands)
  have g: "generate_rings (geod_Direct demo_env) (pt_y ?pt) (pt_x ?pt) (- 25000) 50000 (pt_spacing ?self)
           = Some (Inr ([\<lparr>pt_x = 1439 / 8, pt_y = - (1 / 4)\<rparr>, \<lparr>pt_x = 1437 / 8, pt_y = 0\<rparr>,
                 \<lparr>pt_x = 1439 / 8, pt_y = 1 / 4\<rparr>, \<lparr>pt_x = - (1439 / 8), pt_y = 0\<rparr>,
                 \<lparr>pt_x = 1439 / 8, pt_y = - (1 / 4)\<rparr>],
                [\<lparr>pt_x = 1439 / 8, pt_y = 1 / 2\<rparr>, \<lparr>pt_x = - (1437 / 8), pt_y = 0\<rparr>,
                 \<lparr>pt_x = 1439 / 8, pt_y = - (1 / 2)\<rparr>, \<lparr>pt_x = 1435 / 8, pt_y = 0\<rparr>,
                 \<lparr>pt_x = 1439 / 8, pt_y = 1 / 2\<rparr>]))"
    using demo_rings_negative by (simp add: demo_env_def demo_self_dyn_def demo_self_def)
  have tr: "transform_rings ?self (- 25000)
              (normalize_rings (- 25000)
                 ([\<lparr>pt_x = 1439 / 8, pt_y = - (1 / 4)\<rparr>, \<lparr>pt_x = 1437 / 8, pt_y = 0\<rparr>,
                   \<lparr>pt_x = 1439 / 8, pt_y = 1 / 4\<rparr>, \<lparr>pt_x = - (1439 / 8), pt_y = 0\<rparr>,
                   \<lparr>pt_x = 1439 / 8, pt_y = - (1 / 4)\<rparr>],
                  [\<lparr>pt_x = 1439 / 8, pt_y = 1 / 2\<rparr>, \<lparr>pt_x = - (1437 / 8), pt_y = 0\<rparr>,
                   \<lparr>pt_x = 1439 / 8, pt_y = - (1 / 2)\<rparr>, \<lparr>pt_x = 1435 / 8, pt_y = 0\<rparr>,
                   \<lparr>pt_x = 1439 / 8, pt_y = 1 / 2\<rparr>]))
            = Inr ([\<lparr>pt_x = 1439 / 8, pt_y = - (1 / 4)\<rparr>, \<lparr>pt_x = 1437 / 8, pt_y = 0\<rparr>,
                    \<lparr>pt_x = 1439 / 8, pt_y = 1 / 4\<rparr>, \<lparr>pt_x = 1441 / 8, pt_y = 0\<rparr>,
                    \<lparr>pt_x = 1439 / 8, pt_y = - (1 / 4)\<rparr>],
                   [\<lparr>pt_x = 1439 / 8, pt_y = 1 / 2\<rparr>, \<lparr>pt_x = 1443 / 8, pt_y = 0\<rparr>,
                    \<lparr>pt_x = 1439 / 8, pt_y = - (1 / 2)\<rparr>, \<lparr>pt_x = 1435 / 8, pt_y = 0\<rparr>,
                    \<lparr>pt_x = 1439 / 8, pt_y = 1 / 2\<rparr>])"
    by (simp add: transform_rings_def normalize_rings_def makeIdlCrossingsPositive_def
        shift_positive_def demo_self_dyn_def demo_self_def fl_eval)
  note w = negative_inner_radius_is_processed [OF h1 h2 h3 h4, THEN conjunct2, THEN conjunct1,
      rule_format, OF TrueI neg a t o g tr, THEN conjunct1]
  then show ?thesis
    by (simp add: export_attrs_def demo_self_dyn_def demo_self_def)
qed


section \<open>The same feature, the same output\<close>

text \<open>The body of \<open>processFeature\<close> never reads the counter, and reads a radius property
  only for a dynamic radius: two objects with the same configuration treat every feature
  alike.  The counter is all that a run changes in the object.\<close>

lemma configuration_num_bad: "configuration (self\<lparr>num_bad := n\<rparr>) = configuration self"
  by (simp add: configuration_def)

lemma try_body_configuration:
  "try_body ev (configuration self) feature ctx = try_body ev self feature ctx"
proof -
  have 1: "to_4326 (configuration self) = to_4326 self"
    by (simp add: fun_eq_iff to_4326_def configuration_def)
  have 2: "resolve_inner (configuration self) ctx = resolve_inner self ctx"
    by (auto simp: resolve_inner_def configuration_def split: option.splits sum.splits)
  have 3: "resolve_outer (configuration self) ctx = resolve_outer self ctx"
    by (auto simp: resolve_outer_def configuration_def split: option.splits sum.splits)
  have 4: "transform_rings (configuration self) = transform_rings self"
    by (simp add: fun_eq_iff transform_rings_def configuration_def)
  have 5: "export_attrs (configuration self) = export_attrs self"
    by (simp add: fun_eq_iff export_attrs_def configuration_def)
  have 6: "pt_spacing (configuration self) = pt_spacing self"
    "shape_type (configuration self) = shape_type self"
    by (simp_all add: configuration_def)
  show ?thesis unfolding try_body_def 1 2 3 4 5 6 ..
qed

lemma try_body_same_configuration:
  assumes "configuration s2 = configuration s1"
  shows "try_body ev s2 feature ctx = try_body ev s1 feature ctx"
  using try_body_configuration [of ev s2 feature ctx] try_body_configuration [of ev s1 feature ctx] assms
  by simp

lemma processFeature_same_configuration:
  assumes "configuration s2 = configuration s1"
  shows "(processFeature ev s2 feature ctx = None \<and> processFeature ev s1 feature ctx = None)
         \<or> (\<exists>out s2' s1'. processFeature ev s2 feature ctx = Some (out, s2')
               \<and> processFeature ev s1 feature ctx = Some (out, s1')
               \<and> configuration s2' = configuration s1')"
proof (cases "try_body ev s1 feature ctx")
  case None
  then show ?thesis using try_body_same_configuration [OF assms, of ev feature ctx]
    by (simp add: processFeature_def)
next
  case (Some x)
  then show ?thesis using try_body_same_configuration [OF assms, of ev feature ctx] assms
    by (cases x) (simp_all add: processFeature_def configuration_num_bad)
qed

lemma process_all_same_configuration:
  assumes "configuration s2 = configuration s1"
  shows "map_option fst (process_all ev s2 features) = map_option fst (process_all ev s1 features)"
  using assms
proof (induction features arbitrary: s1 s2)
  case Nil
  then show ?case by simp
next
  case (Cons fc rest)
  obtain feature ctx where fc: "fc = (feature, ctx)" by (cases fc)
  from processFeature_same_configuration [OF Cons.prems, of ev feature ctx] show ?case
  proof
    assume "processFeature ev s2 feature ctx = None \<and> processFeature ev s1 feature ctx = None"
    then show ?thesis by (simp add: fc)
  next
    assume "\<exists>out s2' s1'. processFeature ev s2 feature ctx = Some (out, s2')
               \<and> processFeature ev s1 feature ctx = Some (out, s1')
               \<and> configuration s2' = configuration s1'"
    then obtain out s2' s1' where p2: "processFeature ev s2 feature ctx = Some (out, s2')"
      and p1: "processFeature ev s1 feature ctx = Some (out, s1')"
      and c: "configuration s2' = configuration s1'" by blast
    from Cons.IH [OF c]
    have "map_option fst (process_all ev s2' rest) = map_option fst (process_all ev s1' rest)" .
    then show ?thesis
      by (cases "process_all ev s2' rest"; cases "process_all ev s1' rest")
         (auto simp: fc p1 p2)
  qed
qed

lemma process_all_configuration:
  assumes "process_all ev self features = Some (outs, self')"
  shows "configuration self' = configuration self"
proof -
  from process_all_count [OF assms] have "self' = self\<lparr>num_bad := num_bad self'\<rparr>" by simp
  then show ?thesis by (metis configuration_num_bad)
qed

text \<open>The configuration \<open>prepareAlgorithm\<close> leaves is a function of the parameters and
  the environment alone, whatever the object held before.\<close>

lemma prepareAlgorithm_configuration:
  assumes "prepareAlgorithm ev self0 prm feedback = Inr (True, self, feedback')"
  shows "configuration self =
           \<lparr>shape_type = ShapeType prm, export_geom = ExportInputGeometry prm,
            outer_radius = OuterRadius prm, outer_radius_dyn = (OuterRadius_property prm \<noteq> None),
            outer_radius_property = OuterRadius_property prm,
            inner_radius = InnerRadius prm, inner_radius_dyn = (InnerRadius_property prm \<noteq> None),
            inner_radius_property = InnerRadius_property prm,
            measure_factor = conversionToMeters ev (UnitsOfMeasure prm),
            inner_radius_converted = fl (InnerRadius prm * conversionToMeters ev (UnitsOfMeasure prm)),
            outer_radius_converted = fl (OuterRadius prm * conversionToMeters ev (UnitsOfMeasure prm)),
            pt_spacing = fl (360 / of_int (DrawingSegments prm)),
            total_features = INPUT_featureCount prm,
            geom_to_4326 = (if INPUT_sourceCrs prm \<noteq> epsg4326
                            then Some (QgsCoordinateTransform ev (INPUT_sourceCrs prm) epsg4326)
                            else None),
            to_sink_crs = (if INPUT_sourceCrs prm \<noteq> epsg4326
                           then Some (QgsCoordinateTransform ev epsg4326 (INPUT_sourceCrs prm))
                           else None),
            num_bad = 0\<rparr>"
  using assms
  by (auto simp: prepareAlgorithm_def pt_spacing_of_def configuration_def Let_def
      split: if_splits)

lemma resolve_outer_configuration:
  "resolve_outer self ctx = resolve_outer (configuration self) ctx"
  by (auto simp: resolve_outer_def configuration_def split: option.splits sum.splits)

lemma resolve_inner_configuration:
  "resolve_inner self ctx = resolve_inner (configuration self) ctx"
  by (auto simp: resolve_inner_def configuration_def split: option.splits sum.splits)

text \<open>
  Claim C7: the pipeline is deterministic.  The output for a feature is the same wherever
  the feature comes in the run (after any earlier features, skipped or not) and the same
  in a second run prepared from the same parameters on any object, for one feature and
  for a whole layer; and a fixed radius resolves to the same number of metres each time,
  the configured radius times the unit factor, whatever the feature.  The solver, the
  expressions and the transforms are functions of the model, as the claim takes them.
\<close>

theorem same_feature_same_output:
  assumes "prepareAlgorithm ev self0 prm feedback = Inr (True, self, feedback')"
    and "process_all ev self earlier = Some (outs, self')"
    and "prepareAlgorithm ev self0' prm feedback2 = Inr (True, self2, feedback2')"
  shows "map_option fst (processFeature ev self' feature ctx)
           = map_option fst (processFeature ev self feature ctx)
         \<and> map_option fst (processFeature ev self2 feature ctx)
           = map_option fst (processFeature ev self feature ctx)
         \<and> map_option fst (process_all ev self2 features)
           = map_option fst (process_all ev self features)
         \<and> (OuterRadius_property prm = None \<longrightarrow>
              resolve_outer self' ctx
                = Inr (Some (fl (OuterRadius prm * conversionToMeters ev (UnitsOfMeasure prm))))
              \<and> resolve_outer self2 ctx' = resolve_outer self' ctx)
         \<and> (InnerRadius_property prm = None \<longrightarrow>
              resolve_inner self' ctx
                = Inr (Some (fl (InnerRadius prm * conversionToMeters ev (UnitsOfMeasure prm))))
              \<and> resolve_inner self2 ctx' = resolve_inner self' ctx)"
proof -
  have c1: "configuration self' = configuration self" by (rule process_all_configuration [OF assms(2)])
  have c2: "configuration self2 = configuration self"
    using prepareAlgorithm_configuration [OF assms(1)] prepareAlgorithm_configuration [OF assms(3)]
    by simp
  have 1: "map_option fst (processFeature ev self' feature ctx)
           = map_option fst (processFeature ev self feature ctx)"
    using process_all_same_configuration [OF c1, of ev "[(feature, ctx)]"]
    by (auto split: option.splits)
  have 2: "map_option fst (processFeature ev self2 feature ctx)
           = map_option fst (processFeature ev self feature ctx)"
    using process_all_same_configuration [OF c2, of ev "[(feature, ctx)]"]
    by (auto split: option.splits)
  have 3: "map_option fst (process_all ev self2 features)
           = map_option fst (process_all ev self features)"
    by (rule process_all_same_configuration [OF c2])
  have 4: "resolve_outer self' ctx
                = Inr (Some (fl (OuterRadius prm * conversionToMeters ev (UnitsOfMeasure prm))))
              \<and> resolve_outer self2 ctx' = resolve_outer self' ctx"
    if "OuterRadius_property prm = None"
    using that
    by (subst (1 2 3) resolve_outer_configuration)
       (simp add: c1 c2 prepareAlgorithm_configuration [OF assms(1)] resolve_outer_def)
  have 5: "resolve_inner self' ctx
                = Inr (Some (fl (InnerRadius prm * conversionToMeters ev (UnitsOfMeasure prm))))
              \<and> resolve_inner self2 ctx' = resolve_inner self' ctx"
    if "InnerRadius_property prm = None"
    using that
    by (subst (1 2 3) resolve_inner_configuration)
       (simp add: c1 c2 prepareAlgorithm_configuration [OF assms(1)] resolve_inner_def)
  from 1 2 3 4 5 show ?thesis by blast
qed

text \<open>The demo feature after a skipped feature, against the demo feature processed
  first; and the object of the first run prepared again.\<close>

lemma demo_prepare_again:
  "prepareAlgorithm demo_env ((demo_self 50 25)\<lparr>num_bad := Suc 0\<rparr>) (demo_parameters 50 25) []
     = Inr (True, demo_self 50 25, [])"
  by (simp add: prepareAlgorithm_def demo_parameters_def demo_env_def demo_self_def
      pt_spacing_of_def epsg4326_def fl_quarters Let_def)

lemma demo_process_bad:
  "process_all demo_env (demo_self 50 25)
     [(\<lparr>geometry = PointGeometry \<lparr>pt_x = 10, pt_y = 20\<rparr>, attributes = []\<rparr>,
       \<lparr>expressionContext = demo_feature\<rparr>)]
   = Some ([], (demo_self 50 25)\<lparr>num_bad := Suc 0\<rparr>)"
  by (simp add: processFeature_def demo_solver_raises demo_self_num_bad)

theorem same_feature_same_output_witness:
  "map_option fst
     (processFeature demo_env ((demo_self 50 25)\<lparr>num_bad := Suc 0\<rparr>) demo_feature
        \<lparr>expressionContext = demo_feature\<rparr>)
   = Some [demo_feature\<lparr>geometry := PolygonXY
              [[\<lparr>pt_x = 1439 / 8, pt_y = 1 / 2\<rparr>, \<lparr>pt_x = 1443 / 8, pt_y = 0\<rparr>,
                \<lparr>pt_x = 1439 / 8, pt_y = - (1 / 2)\<rparr>, \<lparr>pt_x = 1435 / 8, pt_y = 0\<rparr>,
                \<lparr>pt_x = 1439 / 8, pt_y = 1 / 2\<rparr>],
               [\<lparr>pt_x = 1439 / 8, pt_y = 1 / 4\<rparr>, \<lparr>pt_x = 1441 / 8, pt_y = 0\<rparr>,
                \<lparr>pt_x = 1439 / 8, pt_y = - (1 / 4)\<rparr>, \<lparr>pt_x = 1437 / 8, pt_y = 0\<rparr>,
                \<lparr>pt_x = 1439 / 8, pt_y = 1 / 4\<rparr>]]\<rparr>]"
  using same_feature_same_output [OF demo_prepare_donut demo_process_bad demo_prepare_again,
      THEN conjunct1, of demo_feature "\<lparr>expressionContext = demo_feature\<rparr>"]
  by (simp add: demo_process_donut)

end
